theory Spec2Isabelle
  imports Main
begin

section \<open>Parsed JSON values and the Python operations applied to them\<close>

text \<open>
  The bot (\<^verbatim>\<open>hw_status_bot.py\<close>) polls a homework-review API and forwards status changes
  to one Telegram chat.  Everything it inspects is parsed JSON, so the values of the model
  are the Python objects \<^verbatim>\<open>response.json()\<close> can hold: \<^verbatim>\<open>None\<close>, booleans, integers, strings,
  lists and dicts with string keys.  JSON numbers with a fraction become Python floats and
  are not part of the model.  A Python \<^verbatim>\<open>str\<close> is modelled by its UTF-8 bytes (a lone
  surrogate by its three bytes), which keeps equality, concatenation and the substring test
  as they are on code points.  A dict is an association list read with \<open>map_of\<close>; a parsed
  JSON object holds every key once.
\<close>

datatype json =
    JNull
  | JBool bool
  | JInt int
  | JStr string
  | JList "json list"
  | JDict "(string \<times> json) list"

type_synonym dict = "(string \<times> json) list"

text \<open>\<^verbatim>\<open>key in d\<close> and \<^verbatim>\<open>d.get(key, default)\<close> on a dict.\<close>

definition dict_in :: "string \<Rightarrow> dict \<Rightarrow> bool" where
  "dict_in key d = (map_of d key \<noteq> None)"

definition dict_get :: "dict \<Rightarrow> string \<Rightarrow> json \<Rightarrow> json" where
  "dict_get d key dflt = (case map_of d key of None \<Rightarrow> dflt | Some v \<Rightarrow> v)"

text \<open>
  Python's \<^verbatim>\<open>==\<close> on these values.  \<^verbatim>\<open>bool\<close> is a subclass of \<^verbatim>\<open>int\<close>, so \<^verbatim>\<open>True == 1\<close>
  and \<^verbatim>\<open>False == 0\<close>; lists compare element by element; dicts compare as key sets with
  equal values, whatever the order of insertion.
\<close>

function py_eq :: "json \<Rightarrow> json \<Rightarrow> bool" where
  "py_eq JNull y = (y = JNull)"
| "py_eq (JBool a) y =
     (case y of JBool b \<Rightarrow> a = b | JInt j \<Rightarrow> j = (if a then 1 else 0) | _ \<Rightarrow> False)"
| "py_eq (JInt i) y =
     (case y of JBool b \<Rightarrow> i = (if b then 1 else 0) | JInt j \<Rightarrow> i = j | _ \<Rightarrow> False)"
| "py_eq (JStr s) y = (y = JStr s)"
| "py_eq (JList xs) y = (case y of JList ys \<Rightarrow> list_all2 py_eq xs ys | _ \<Rightarrow> False)"
| "py_eq (JDict d) y =
     (case y of
        JDict e \<Rightarrow>
          set (map fst d) = set (map fst e) \<and>
          list_all (\<lambda>k. case map_of d k of
                           None \<Rightarrow> False
                         | Some v \<Rightarrow> (case map_of e k of None \<Rightarrow> False | Some w \<Rightarrow> py_eq v w))
            (map fst d)
      | _ \<Rightarrow> False)"
  by pat_completeness auto
termination
proof -
  have dict_value: "size v < Suc (size_list (size_prod (\<lambda>_. 0) size) d)"
    if "map_of d k = Some v" for d :: dict and k v
    using that by (induction d) (auto split: if_splits)
  have list_elem: "size x < Suc (size_list size xs)"
    if "x \<in> set xs" for x :: json and xs
    using that by (induction xs) auto
  show ?thesis
    by (relation "measure (\<lambda>(x, y). size x)") (auto simp: dict_value list_elem)
qed

subsection \<open>\<^verbatim>\<open>str()\<close> and \<^verbatim>\<open>repr()\<close>\<close>

text \<open>
  \<^verbatim>\<open>str.format\<close> fills a \<^verbatim>\<open>{}\<close> field with \<^verbatim>\<open>str(x)\<close>: the string itself for a \<^verbatim>\<open>str\<close>, the
  \<^verbatim>\<open>repr\<close> for every other value of the model.  \<open>repr_str\<close> follows CPython: single quotes
  unless the string holds a single and no double quote; a backslash before a backslash and
  before the chosen quote; \<^verbatim>\<open>\t\<close>, \<^verbatim>\<open>\n\<close>, \<^verbatim>\<open>\r\<close>; \<^verbatim>\<open>\xhh\<close> for the other ASCII control
  characters; a code point beyond ASCII as it is when the Unicode database of the
  interpreter calls it printable, and as \<^verbatim>\<open>\xhh\<close>, \<^verbatim>\<open>\uhhhh\<close> or \<^verbatim>\<open>\Uhhhhhhhh\<close> otherwise.
  That database belongs to the interpreter, not to the program: it is the parameter
  \<open>isprintable\<close> of every function that renders a value.
\<close>

type_synonym unicode_db = "nat \<Rightarrow> bool"

definition digit :: "nat \<Rightarrow> char" where
  "digit n = ''0123456789abcdef'' ! n"

fun str_nat :: "nat \<Rightarrow> string" where
  "str_nat n = (if n < 10 then [digit n] else str_nat (n div 10) @ [digit (n mod 10)])"

declare str_nat.simps [simp del]

definition str_int :: "int \<Rightarrow> string" where
  "str_int i = (if i < 0 then CHR ''-'' # str_nat (nat (- i)) else str_nat (nat i))"

text \<open>The last \<open>k\<close> hexadecimal digits of a number, in lower case.\<close>

fun hex :: "nat \<Rightarrow> nat \<Rightarrow> string" where
  "hex 0 n = []"
| "hex (Suc k) n = hex k (n div 16) @ [digit (n mod 16)]"

definition escape_char :: "char \<Rightarrow> char \<Rightarrow> string" where
  "escape_char q c =
     (if c = CHR 0x5C then [CHR 0x5C, CHR 0x5C]
      else if c = q then [CHR 0x5C, q]
      else if c = CHR 0x09 then [CHR 0x5C, CHR ''t'']
      else if c = CHR 0x0A then [CHR 0x5C, CHR ''n'']
      else if c = CHR 0x0D then [CHR 0x5C, CHR ''r'']
      else if (of_char c :: nat) < 32 \<or> c = CHR 0x7F
        then [CHR 0x5C, CHR ''x''] @ hex 2 (of_char c)
      else [c])"

text \<open>A code point beyond ASCII, given with its bytes.\<close>

definition escape_code_point :: "unicode_db \<Rightarrow> nat \<Rightarrow> string \<Rightarrow> string" where
  "escape_code_point isprintable cp bytes =
     (if isprintable cp then bytes
      else if cp \<le> 0xFF then [CHR 0x5C, CHR ''x''] @ hex 2 cp
      else if cp \<le> 0xFFFF then [CHR 0x5C, CHR ''u''] @ hex 4 cp
      else [CHR 0x5C, CHR ''U''] @ hex 8 cp)"

text \<open>
  The six payload bits of a continuation byte, and whether the next \<open>k\<close> bytes of a
  string are continuation bytes.
\<close>

definition payload :: "char \<Rightarrow> nat" where
  "payload c = of_char c mod 64"

definition continues :: "nat \<Rightarrow> string \<Rightarrow> bool" where
  "continues k cs =
     (k \<le> length cs \<and> list_all (\<lambda>c. 0x80 \<le> (of_char c :: nat) \<and> (of_char c :: nat) < 0xC0) (take k cs))"

text \<open>
  The characters of a string, one code point after the other.  A byte that starts no
  code point occurs in no encoded \<^verbatim>\<open>str\<close> and is kept.
\<close>

function repr_chars :: "unicode_db \<Rightarrow> char \<Rightarrow> string \<Rightarrow> string" where
  "repr_chars isprintable q [] = []"
| "repr_chars isprintable q (c # cs) =
     (let n = (of_char c :: nat)
      in if n < 0x80 then escape_char q c @ repr_chars isprintable q cs
         else if 0xC0 \<le> n \<and> n < 0xE0 \<and> continues 1 cs
           then escape_code_point isprintable ((n mod 32) * 64 + payload (cs ! 0)) (c # take 1 cs)
                @ repr_chars isprintable q (drop 1 cs)
         else if 0xE0 \<le> n \<and> n < 0xF0 \<and> continues 2 cs
           then escape_code_point isprintable
                  (((n mod 16) * 64 + payload (cs ! 0)) * 64 + payload (cs ! 1)) (c # take 2 cs)
                @ repr_chars isprintable q (drop 2 cs)
         else if 0xF0 \<le> n \<and> n < 0xF8 \<and> continues 3 cs
           then escape_code_point isprintable
                  ((((n mod 8) * 64 + payload (cs ! 0)) * 64 + payload (cs ! 1)) * 64
                     + payload (cs ! 2)) (c # take 3 cs)
                @ repr_chars isprintable q (drop 3 cs)
         else c # repr_chars isprintable q cs)"
  by pat_completeness auto
termination
  by (relation "measure (\<lambda>(isprintable, q, s). length s)") auto

definition repr_str :: "unicode_db \<Rightarrow> string \<Rightarrow> string" where
  "repr_str isprintable s =
     (let q = (if CHR 0x27 \<in> set s \<and> CHR 0x22 \<notin> set s then CHR 0x22 else CHR 0x27)
      in q # repr_chars isprintable q s @ [q])"

fun join :: "string \<Rightarrow> string list \<Rightarrow> string" where
  "join sep [] = []"
| "join sep [x] = x"
| "join sep (x # y # ys) = x @ sep @ join sep (y # ys)"

primrec py_repr :: "unicode_db \<Rightarrow> json \<Rightarrow> string" where
  "py_repr isprintable JNull = ''None''"
| "py_repr isprintable (JBool b) = (if b then ''True'' else ''False'')"
| "py_repr isprintable (JInt i) = str_int i"
| "py_repr isprintable (JStr s) = repr_str isprintable s"
| "py_repr isprintable (JList xs) = ''['' @ join '', '' (map (py_repr isprintable) xs) @ '']''"
| "py_repr isprintable (JDict d) =
     ''{'' @ join '', '' (map (\<lambda>kv. repr_str isprintable (fst kv) @ '': '' @ snd kv)
                            (map (map_prod id (py_repr isprintable)) d)) @ ''}''"

definition py_str :: "unicode_db \<Rightarrow> json \<Rightarrow> string" where
  "py_str isprintable v = (case v of JStr s \<Rightarrow> s | _ \<Rightarrow> py_repr isprintable v)"

text \<open>The name of the type of a value: it is plain ASCII, so its \<^verbatim>\<open>repr\<close> is the name in quotes.\<close>

definition type_name :: "json \<Rightarrow> string" where
  "type_name v =
     (case v of JNull \<Rightarrow> ''NoneType'' | JBool _ \<Rightarrow> ''bool'' | JInt _ \<Rightarrow> ''int''
      | JStr _ \<Rightarrow> ''str'' | JList _ \<Rightarrow> ''list'' | JDict _ \<Rightarrow> ''dict'')"

text \<open>Lists and dicts have no hash: using one as a dict key raises \<^verbatim>\<open>TypeError\<close>.\<close>

definition unhashable :: "json \<Rightarrow> bool" where
  "unhashable v = (case v of JList _ \<Rightarrow> True | JDict _ \<Rightarrow> True | _ \<Rightarrow> False)"

section \<open>Module constants\<close>

text \<open>
  The message templates of the source, byte for byte.  A template with \<^verbatim>\<open>{}\<close> or named
  fields is the function that \<^verbatim>\<open>.format\<close> computes from the rendered arguments, positional
  arguments first, then \<^verbatim>\<open>url\<close>, \<^verbatim>\<open>headers\<close>, \<^verbatim>\<open>params\<close>.
\<close>

definition RETRY_TIME :: nat where
  "RETRY_TIME = 600"

definition VARIABLE_NAMES :: "string list" where
  "VARIABLE_NAMES = [''PRACTICUM_TOKEN'', ''AWESOM_O_TOKEN'', ''MY_CHAT_ID'']"

definition ENDPOINT :: "string" where
  "ENDPOINT =
     ''https://practicum.yandex.ru/api/user_api/homework_statuses/''"

text \<open>\<^verbatim>\<open>VERDICTS['approved']\<close>, in English: the work is checked, the reviewer liked everything.\<close>

definition VERDICT_approved :: "string" where
  "VERDICT_approved =
     [CHR 0xD0, CHR 0xA0, CHR 0xD0, CHR 0xB0, CHR 0xD0, CHR 0xB1, CHR 0xD0, CHR 0xBE,
     CHR 0xD1, CHR 0x82, CHR 0xD0, CHR 0xB0] @ '' '' @ [CHR 0xD0, CHR 0xBF, CHR 0xD1,
     CHR 0x80, CHR 0xD0, CHR 0xBE, CHR 0xD0, CHR 0xB2, CHR 0xD0, CHR 0xB5, CHR 0xD1,
     CHR 0x80, CHR 0xD0, CHR 0xB5, CHR 0xD0, CHR 0xBD, CHR 0xD0,
     CHR 0xB0] @ '': '' @ [CHR 0xD1, CHR 0x80, CHR 0xD0, CHR 0xB5, CHR 0xD0, CHR 0xB2,
     CHR 0xD1, CHR 0x8C, CHR 0xD1, CHR 0x8E, CHR 0xD0, CHR 0xB5, CHR 0xD1, CHR 0x80,
     CHR 0xD1, CHR 0x83] @ '' '' @ [CHR 0xD0, CHR 0xB2, CHR 0xD1, CHR 0x81, CHR 0xD1,
     CHR 0x91] @ '' '' @ [CHR 0xD0, CHR 0xBF, CHR 0xD0, CHR 0xBE, CHR 0xD0, CHR 0xBD,
     CHR 0xD1, CHR 0x80, CHR 0xD0, CHR 0xB0, CHR 0xD0, CHR 0xB2, CHR 0xD0, CHR 0xB8,
     CHR 0xD0, CHR 0xBB, CHR 0xD0, CHR 0xBE, CHR 0xD1, CHR 0x81, CHR 0xD1,
     CHR 0x8C] @ ''. '' @ [CHR 0xD0, CHR 0xA3, CHR 0xD1, CHR 0x80, CHR 0xD0,
     CHR 0xB0] @ ''!''"

text \<open>\<^verbatim>\<open>VERDICTS['rejected']\<close>, in English: the work is checked, the reviewer has remarks.\<close>

definition VERDICT_rejected :: "string" where
  "VERDICT_rejected =
     [CHR 0xD0, CHR 0xA0, CHR 0xD0, CHR 0xB0, CHR 0xD0, CHR 0xB1, CHR 0xD0, CHR 0xBE,
     CHR 0xD1, CHR 0x82, CHR 0xD0, CHR 0xB0] @ '' '' @ [CHR 0xD0, CHR 0xBF, CHR 0xD1,
     CHR 0x80, CHR 0xD0, CHR 0xBE, CHR 0xD0, CHR 0xB2, CHR 0xD0, CHR 0xB5, CHR 0xD1,
     CHR 0x80, CHR 0xD0, CHR 0xB5, CHR 0xD0, CHR 0xBD, CHR 0xD0,
     CHR 0xB0] @ '': '' @ [CHR 0xD1, CHR 0x83] @ '' '' @ [CHR 0xD1, CHR 0x80, CHR 0xD0,
     CHR 0xB5, CHR 0xD0, CHR 0xB2, CHR 0xD1, CHR 0x8C, CHR 0xD1, CHR 0x8E, CHR 0xD0,
     CHR 0xB5, CHR 0xD1, CHR 0x80, CHR 0xD0, CHR 0xB0] @ '' '' @ [CHR 0xD0, CHR 0xB5,
     CHR 0xD1, CHR 0x81, CHR 0xD1, CHR 0x82, CHR 0xD1, CHR 0x8C] @ '' '' @ [CHR 0xD0,
     CHR 0xB7, CHR 0xD0, CHR 0xB0, CHR 0xD0, CHR 0xBC, CHR 0xD0, CHR 0xB5, CHR 0xD1,
     CHR 0x87, CHR 0xD0, CHR 0xB0, CHR 0xD0, CHR 0xBD, CHR 0xD0, CHR 0xB8, CHR 0xD1,
     CHR 0x8F] @ ''.''"

text \<open>\<^verbatim>\<open>VERDICTS['reviewing']\<close>, in English: the work was taken for review.\<close>

definition VERDICT_reviewing :: "string" where
  "VERDICT_reviewing =
     [CHR 0xD0, CHR 0xA0, CHR 0xD0, CHR 0xB0, CHR 0xD0, CHR 0xB1, CHR 0xD0, CHR 0xBE,
     CHR 0xD1, CHR 0x82, CHR 0xD0, CHR 0xB0] @ '' '' @ [CHR 0xD0, CHR 0xB2, CHR 0xD0,
     CHR 0xB7, CHR 0xD1, CHR 0x8F, CHR 0xD1, CHR 0x82, CHR 0xD0,
     CHR 0xB0] @ '' '' @ [CHR 0xD0, CHR 0xBD, CHR 0xD0, CHR 0xB0] @ '' '' @ [CHR 0xD0,
     CHR 0xBF, CHR 0xD1, CHR 0x80, CHR 0xD0, CHR 0xBE, CHR 0xD0, CHR 0xB2, CHR 0xD0,
     CHR 0xB5, CHR 0xD1, CHR 0x80, CHR 0xD0, CHR 0xBA, CHR 0xD1,
     CHR 0x83] @ '' '' @ [CHR 0xD1, CHR 0x80, CHR 0xD0, CHR 0xB5, CHR 0xD0, CHR 0xB2,
     CHR 0xD1, CHR 0x8C, CHR 0xD1, CHR 0x8E, CHR 0xD0, CHR 0xB5, CHR 0xD1, CHR 0x80,
     CHR 0xD0, CHR 0xBE, CHR 0xD0, CHR 0xBC] @ ''.''"

text \<open>\<^verbatim>\<open>BAD_RESPONSE\<close>, in English: API response code {}. Request parameters: {url}, {headers}, {params}.\<close>

definition BAD_RESPONSE :: "string \<Rightarrow> string \<Rightarrow> string \<Rightarrow> string \<Rightarrow> string" where
  "BAD_RESPONSE code url headers params =
     [CHR 0xD0, CHR 0x9A, CHR 0xD0, CHR 0xBE, CHR 0xD0, CHR 0xB4] @ '' '' @ [CHR 0xD0,
     CHR 0xBE, CHR 0xD1, CHR 0x82, CHR 0xD0, CHR 0xB2, CHR 0xD0, CHR 0xB5, CHR 0xD1,
     CHR 0x82, CHR 0xD0, CHR 0xB0] @ '' API: '' @ code @ ''. '' @ [CHR 0xD0, CHR 0x9F,
     CHR 0xD0, CHR 0xB0, CHR 0xD1, CHR 0x80, CHR 0xD0, CHR 0xB0, CHR 0xD0, CHR 0xBC,
     CHR 0xD0, CHR 0xB5, CHR 0xD1, CHR 0x82, CHR 0xD1, CHR 0x80, CHR 0xD1,
     CHR 0x8B] @ '' '' @ [CHR 0xD0, CHR 0xB7, CHR 0xD0, CHR 0xB0, CHR 0xD0, CHR 0xBF,
     CHR 0xD1, CHR 0x80, CHR 0xD0, CHR 0xBE, CHR 0xD1, CHR 0x81, CHR 0xD0,
     CHR 0xB0] @ '': '' @ url @ '', '' @ headers @ '', '' @ params @ ''.''"


text \<open>\<^verbatim>\<open>DENIAL_OF_SERVICE\<close>, in English: denial of service. Key: {}. Error: {}. Request parameters: {url}, {headers}, {params}.\<close>

definition DENIAL_OF_SERVICE :: "string \<Rightarrow> string \<Rightarrow> string \<Rightarrow> string \<Rightarrow> string \<Rightarrow> string" where
  "DENIAL_OF_SERVICE key err url headers params =
     [CHR 0xD0, CHR 0x9E, CHR 0xD1, CHR 0x82, CHR 0xD0, CHR 0xBA, CHR 0xD0, CHR 0xB0,
     CHR 0xD0, CHR 0xB7] @ '' '' @ [CHR 0xD0, CHR 0xBE, CHR 0xD1,
     CHR 0x82] @ '' '' @ [CHR 0xD0, CHR 0xBE, CHR 0xD0, CHR 0xB1, CHR 0xD1, CHR 0x81,
     CHR 0xD0, CHR 0xBB, CHR 0xD1, CHR 0x83, CHR 0xD0, CHR 0xB6, CHR 0xD0, CHR 0xB8,
     CHR 0xD0, CHR 0xB2, CHR 0xD0, CHR 0xB0, CHR 0xD0, CHR 0xBD, CHR 0xD0, CHR 0xB8,
     CHR 0xD1, CHR 0x8F] @ ''. '' @ [CHR 0xD0, CHR 0x9A, CHR 0xD0, CHR 0xBB, CHR 0xD1,
     CHR 0x8E, CHR 0xD1, CHR 0x87] @ '': '' @ key @ ''. '' @ [CHR 0xD0, CHR 0x9E,
     CHR 0xD1, CHR 0x88, CHR 0xD0, CHR 0xB8, CHR 0xD0, CHR 0xB1, CHR 0xD0, CHR 0xBA,
     CHR 0xD0, CHR 0xB0] @ '': '' @ err @ ''. '' @ [CHR 0xD0, CHR 0x9F, CHR 0xD0,
     CHR 0xB0, CHR 0xD1, CHR 0x80, CHR 0xD0, CHR 0xB0, CHR 0xD0, CHR 0xBC, CHR 0xD0,
     CHR 0xB5, CHR 0xD1, CHR 0x82, CHR 0xD1, CHR 0x80, CHR 0xD1,
     CHR 0x8B] @ '' '' @ [CHR 0xD0, CHR 0xB7, CHR 0xD0, CHR 0xB0, CHR 0xD0, CHR 0xBF,
     CHR 0xD1, CHR 0x80, CHR 0xD0, CHR 0xBE, CHR 0xD1, CHR 0x81, CHR 0xD0,
     CHR 0xB0] @ '': '' @ url @ '', '' @ headers @ '', '' @ params @ ''.''"

text \<open>\<^verbatim>\<open>ERROR_FOUND\<close>, in English: error in the program: {}.\<close>

definition ERROR_FOUND :: "string \<Rightarrow> string" where
  "ERROR_FOUND err =
     [CHR 0xD0, CHR 0x9E, CHR 0xD1, CHR 0x88, CHR 0xD0, CHR 0xB8, CHR 0xD0, CHR 0xB1,
     CHR 0xD0, CHR 0xBA, CHR 0xD0, CHR 0xB0] @ '' '' @ [CHR 0xD0,
     CHR 0xB2] @ '' '' @ [CHR 0xD1, CHR 0x80, CHR 0xD0, CHR 0xB0, CHR 0xD0, CHR 0xB1,
     CHR 0xD0, CHR 0xBE, CHR 0xD1, CHR 0x82, CHR 0xD0, CHR 0xB5] @ '' '' @ [CHR 0xD0,
     CHR 0xBF, CHR 0xD1, CHR 0x80, CHR 0xD0, CHR 0xBE, CHR 0xD0, CHR 0xB3, CHR 0xD1,
     CHR 0x80, CHR 0xD0, CHR 0xB0, CHR 0xD0, CHR 0xBC, CHR 0xD0, CHR 0xBC, CHR 0xD1,
     CHR 0x8B] @ '': '' @ err @ ''.''"

text \<open>\<^verbatim>\<open>INVALID_DATA_TYPE\<close>, in English: the homeworks are not a list.\<close>

definition INVALID_DATA_TYPE :: "string" where
  "INVALID_DATA_TYPE =
     [CHR 0xD0, CHR 0x94, CHR 0xD0, CHR 0xBE, CHR 0xD0, CHR 0xBC, CHR 0xD0, CHR 0xB0,
     CHR 0xD1, CHR 0x88, CHR 0xD0, CHR 0xBD, CHR 0xD0, CHR 0xB8, CHR 0xD0,
     CHR 0xB5] @ '' '' @ [CHR 0xD1, CHR 0x80, CHR 0xD0, CHR 0xB0, CHR 0xD0, CHR 0xB1,
     CHR 0xD0, CHR 0xBE, CHR 0xD1, CHR 0x82, CHR 0xD1, CHR 0x8B] @ '' '' @ [CHR 0xD0,
     CHR 0xBD, CHR 0xD0, CHR 0xB5] @ '' '' @ [CHR 0xD0, CHR 0xB2] @ '' '' @ [CHR 0xD0,
     CHR 0xB2, CHR 0xD0, CHR 0xB8, CHR 0xD0, CHR 0xB4, CHR 0xD0,
     CHR 0xB5] @ '' '' @ [CHR 0xD1, CHR 0x81, CHR 0xD0, CHR 0xBF, CHR 0xD0, CHR 0xB8,
     CHR 0xD1, CHR 0x81, CHR 0xD0, CHR 0xBA, CHR 0xD0, CHR 0xB0] @ ''.''"

text \<open>\<^verbatim>\<open>MESSAGE_SENDING_FAILED\<close>, in English: failure when sending a message to Telegram: {}.\<close>

definition MESSAGE_SENDING_FAILED :: "string \<Rightarrow> string" where
  "MESSAGE_SENDING_FAILED err =
     [CHR 0xD0, CHR 0xA1, CHR 0xD0, CHR 0xB1, CHR 0xD0, CHR 0xBE, CHR 0xD0,
     CHR 0xB9] @ '' '' @ [CHR 0xD0, CHR 0xBF, CHR 0xD1, CHR 0x80, CHR 0xD0,
     CHR 0xB8] @ '' '' @ [CHR 0xD0, CHR 0xBE, CHR 0xD1, CHR 0x82, CHR 0xD0, CHR 0xBF,
     CHR 0xD1, CHR 0x80, CHR 0xD0, CHR 0xB0, CHR 0xD0, CHR 0xB2, CHR 0xD0, CHR 0xBA,
     CHR 0xD0, CHR 0xB5] @ '' '' @ [CHR 0xD1, CHR 0x81, CHR 0xD0, CHR 0xBE, CHR 0xD0,
     CHR 0xBE, CHR 0xD0, CHR 0xB1, CHR 0xD1, CHR 0x89, CHR 0xD0, CHR 0xB5, CHR 0xD0,
     CHR 0xBD, CHR 0xD0, CHR 0xB8, CHR 0xD1, CHR 0x8F] @ '' '' @ [CHR 0xD0,
     CHR 0xB2] @ '' Telegram: '' @ err @ ''.''"

text \<open>\<^verbatim>\<open>MESSAGE_SENT\<close>, in English: message "{}" sent to Telegram.\<close>

definition MESSAGE_SENT :: "string \<Rightarrow> string" where
  "MESSAGE_SENT message =
     [CHR 0xD0, CHR 0xA1, CHR 0xD0, CHR 0xBE, CHR 0xD0, CHR 0xBE, CHR 0xD0, CHR 0xB1,
     CHR 0xD1, CHR 0x89, CHR 0xD0, CHR 0xB5, CHR 0xD0, CHR 0xBD, CHR 0xD0, CHR 0xB8,
     CHR 0xD0,
     CHR 0xB5] @ '' '' @ [CHR 0x22] @ message @ [CHR 0x22] @ '' '' @ [CHR 0xD0,
     CHR 0xBE, CHR 0xD1, CHR 0x82, CHR 0xD0, CHR 0xBF, CHR 0xD1, CHR 0x80, CHR 0xD0,
     CHR 0xB0, CHR 0xD0, CHR 0xB2, CHR 0xD0, CHR 0xBB, CHR 0xD0, CHR 0xB5, CHR 0xD0,
     CHR 0xBD, CHR 0xD0, CHR 0xBE] @ '' '' @ [CHR 0xD0, CHR 0xB2] @ '' '' @ [CHR 0xD0,
     CHR 0xA2, CHR 0xD0, CHR 0xB5, CHR 0xD0, CHR 0xBB, CHR 0xD0, CHR 0xB5, CHR 0xD0,
     CHR 0xB3, CHR 0xD1, CHR 0x80, CHR 0xD0, CHR 0xB0, CHR 0xD0, CHR 0xBC] @ ''.''"

text \<open>\<^verbatim>\<open>MISSED_VARIABLES\<close>, in English: required environment variables are absent: {}. The program is stopped.\<close>

definition MISSED_VARIABLES :: "string \<Rightarrow> string" where
  "MISSED_VARIABLES missed =
     [CHR 0xD0, CHR 0x9E, CHR 0xD1, CHR 0x82, CHR 0xD1, CHR 0x81, CHR 0xD1, CHR 0x83,
     CHR 0xD1, CHR 0x82, CHR 0xD1, CHR 0x81, CHR 0xD1, CHR 0x82, CHR 0xD0, CHR 0xB2,
     CHR 0xD1, CHR 0x83, CHR 0xD1, CHR 0x8E, CHR 0xD1, CHR 0x82] @ '' '' @ [CHR 0xD0,
     CHR 0xBE, CHR 0xD0, CHR 0xB1, CHR 0xD1, CHR 0x8F, CHR 0xD0, CHR 0xB7, CHR 0xD0,
     CHR 0xB0, CHR 0xD1, CHR 0x82, CHR 0xD0, CHR 0xB5, CHR 0xD0, CHR 0xBB, CHR 0xD1,
     CHR 0x8C, CHR 0xD0, CHR 0xBD, CHR 0xD1, CHR 0x8B, CHR 0xD0,
     CHR 0xB5] @ '' '' @ [CHR 0xD0, CHR 0xBF, CHR 0xD0, CHR 0xB5, CHR 0xD1, CHR 0x80,
     CHR 0xD0, CHR 0xB5, CHR 0xD0, CHR 0xBC, CHR 0xD0, CHR 0xB5, CHR 0xD0, CHR 0xBD,
     CHR 0xD0, CHR 0xBD, CHR 0xD1, CHR 0x8B, CHR 0xD0, CHR 0xB5] @ '' '' @ [CHR 0xD0,
     CHR 0xBE, CHR 0xD0, CHR 0xBA, CHR 0xD1, CHR 0x80, CHR 0xD1, CHR 0x83, CHR 0xD0,
     CHR 0xB6, CHR 0xD0, CHR 0xB5, CHR 0xD0, CHR 0xBD, CHR 0xD0, CHR 0xB8, CHR 0xD1,
     CHR 0x8F] @ '': '' @ missed @ ''. '' @ [CHR 0xD0, CHR 0x9F, CHR 0xD1, CHR 0x80,
     CHR 0xD0, CHR 0xBE, CHR 0xD0, CHR 0xB3, CHR 0xD1, CHR 0x80, CHR 0xD0, CHR 0xB0,
     CHR 0xD0, CHR 0xBC, CHR 0xD0, CHR 0xBC, CHR 0xD0, CHR 0xB0] @ '' '' @ [CHR 0xD0,
     CHR 0xBF, CHR 0xD1, CHR 0x80, CHR 0xD0, CHR 0xB8, CHR 0xD0, CHR 0xBD, CHR 0xD1,
     CHR 0x83, CHR 0xD0, CHR 0xB4, CHR 0xD0, CHR 0xB8, CHR 0xD1, CHR 0x82, CHR 0xD0,
     CHR 0xB5, CHR 0xD0, CHR 0xBB, CHR 0xD1, CHR 0x8C, CHR 0xD0, CHR 0xBD, CHR 0xD0,
     CHR 0xBE] @ '' '' @ [CHR 0xD0, CHR 0xBE, CHR 0xD1, CHR 0x81, CHR 0xD1, CHR 0x82,
     CHR 0xD0, CHR 0xB0, CHR 0xD0, CHR 0xBD, CHR 0xD0, CHR 0xBE, CHR 0xD0, CHR 0xB2,
     CHR 0xD0, CHR 0xBB, CHR 0xD0, CHR 0xB5, CHR 0xD0, CHR 0xBD, CHR 0xD0,
     CHR 0xB0] @ ''.''"

text \<open>\<^verbatim>\<open>MISSING_REQUIRED_KEY\<close>, in English: the required key is absent from the API response.\<close>

definition MISSING_REQUIRED_KEY :: "string" where
  "MISSING_REQUIRED_KEY =
     [CHR 0xD0, CHR 0x92] @ '' '' @ [CHR 0xD0, CHR 0xBE, CHR 0xD1, CHR 0x82, CHR 0xD0,
     CHR 0xB2, CHR 0xD0, CHR 0xB5, CHR 0xD1, CHR 0x82, CHR 0xD0,
     CHR 0xB5] @ '' '' @ [CHR 0xD0, CHR 0xBE, CHR 0xD1,
     CHR 0x82] @ '' API-'' @ [CHR 0xD1, CHR 0x81, CHR 0xD0, CHR 0xB5, CHR 0xD1,
     CHR 0x80, CHR 0xD0, CHR 0xB2, CHR 0xD0, CHR 0xB8, CHR 0xD1, CHR 0x81, CHR 0xD0,
     CHR 0xB0] @ '' '' @ [CHR 0xD0, CHR 0xBE, CHR 0xD1, CHR 0x82, CHR 0xD1, CHR 0x81,
     CHR 0xD1, CHR 0x83, CHR 0xD1, CHR 0x82, CHR 0xD1, CHR 0x81, CHR 0xD1, CHR 0x82,
     CHR 0xD0, CHR 0xB2, CHR 0xD1, CHR 0x83, CHR 0xD0, CHR 0xB5, CHR 0xD1,
     CHR 0x82] @ '' '' @ [CHR 0xD0, CHR 0xBD, CHR 0xD0, CHR 0xB5, CHR 0xD0, CHR 0xBE,
     CHR 0xD0, CHR 0xB1, CHR 0xD1, CHR 0x85, CHR 0xD0, CHR 0xBE, CHR 0xD0, CHR 0xB4,
     CHR 0xD0, CHR 0xB8, CHR 0xD0, CHR 0xBC, CHR 0xD1, CHR 0x8B, CHR 0xD0,
     CHR 0xB9] @ '' '' @ [CHR 0xD0, CHR 0xBA, CHR 0xD0, CHR 0xBB, CHR 0xD1, CHR 0x8E,
     CHR 0xD1, CHR 0x87] @ ''.''"

text \<open>\<^verbatim>\<open>NO_RESPONSE\<close>, in English: the API service does not answer: {}. Request parameters: {url}, {headers}, {params}.\<close>

definition NO_RESPONSE :: "string \<Rightarrow> string \<Rightarrow> string \<Rightarrow> string \<Rightarrow> string" where
  "NO_RESPONSE err url headers params =
     ''API-'' @ [CHR 0xD1, CHR 0x81, CHR 0xD0, CHR 0xB5, CHR 0xD1, CHR 0x80, CHR 0xD0,
     CHR 0xB2, CHR 0xD0, CHR 0xB8, CHR 0xD1, CHR 0x81] @ '' '' @ [CHR 0xD0, CHR 0xBD,
     CHR 0xD0, CHR 0xB5] @ '' '' @ [CHR 0xD0, CHR 0xBE, CHR 0xD1, CHR 0x82, CHR 0xD0,
     CHR 0xB2, CHR 0xD0, CHR 0xB5, CHR 0xD1, CHR 0x87, CHR 0xD0, CHR 0xB0, CHR 0xD0,
     CHR 0xB5, CHR 0xD1, CHR 0x82] @ '': '' @ err @ ''. '' @ [CHR 0xD0, CHR 0x9F,
     CHR 0xD0, CHR 0xB0, CHR 0xD1, CHR 0x80, CHR 0xD0, CHR 0xB0, CHR 0xD0, CHR 0xBC,
     CHR 0xD0, CHR 0xB5, CHR 0xD1, CHR 0x82, CHR 0xD1, CHR 0x80, CHR 0xD1,
     CHR 0x8B] @ '' '' @ [CHR 0xD0, CHR 0xB7, CHR 0xD0, CHR 0xB0, CHR 0xD0, CHR 0xBF,
     CHR 0xD1, CHR 0x80, CHR 0xD0, CHR 0xBE, CHR 0xD1, CHR 0x81, CHR 0xD0,
     CHR 0xB0] @ '': '' @ url @ '', '' @ headers @ '', '' @ params @ ''.''"

text \<open>\<^verbatim>\<open>STATUS_CHANGED\<close>, in English: the review status of work "{}" changed. {}\<close>

definition STATUS_CHANGED :: "string \<Rightarrow> string \<Rightarrow> string" where
  "STATUS_CHANGED name verdict =
     [CHR 0xD0, CHR 0x98, CHR 0xD0, CHR 0xB7, CHR 0xD0, CHR 0xBC, CHR 0xD0, CHR 0xB5,
     CHR 0xD0, CHR 0xBD, CHR 0xD0, CHR 0xB8, CHR 0xD0, CHR 0xBB, CHR 0xD1, CHR 0x81,
     CHR 0xD1, CHR 0x8F] @ '' '' @ [CHR 0xD1, CHR 0x81, CHR 0xD1, CHR 0x82, CHR 0xD0,
     CHR 0xB0, CHR 0xD1, CHR 0x82, CHR 0xD1, CHR 0x83, CHR 0xD1,
     CHR 0x81] @ '' '' @ [CHR 0xD0, CHR 0xBF, CHR 0xD1, CHR 0x80, CHR 0xD0, CHR 0xBE,
     CHR 0xD0, CHR 0xB2, CHR 0xD0, CHR 0xB5, CHR 0xD1, CHR 0x80, CHR 0xD0, CHR 0xBA,
     CHR 0xD0, CHR 0xB8] @ '' '' @ [CHR 0xD1, CHR 0x80, CHR 0xD0, CHR 0xB0, CHR 0xD0,
     CHR 0xB1, CHR 0xD0, CHR 0xBE, CHR 0xD1, CHR 0x82, CHR 0xD1,
     CHR 0x8B] @ '' '' @ [CHR 0x22] @ name @ [CHR 0x22] @ ''. '' @ verdict"

text \<open>\<^verbatim>\<open>STATUSES_NOT_CHANGED\<close>, in English: the statuses of the homeworks did not change.\<close>

definition STATUSES_NOT_CHANGED :: "string" where
  "STATUSES_NOT_CHANGED =
     [CHR 0xD0, CHR 0xA1, CHR 0xD1, CHR 0x82, CHR 0xD0, CHR 0xB0, CHR 0xD1, CHR 0x82,
     CHR 0xD1, CHR 0x83, CHR 0xD1, CHR 0x81, CHR 0xD1, CHR 0x8B] @ '' '' @ [CHR 0xD0,
     CHR 0xB4, CHR 0xD0, CHR 0xBE, CHR 0xD0, CHR 0xBC, CHR 0xD0, CHR 0xB0, CHR 0xD1,
     CHR 0x88, CHR 0xD0, CHR 0xBD, CHR 0xD0, CHR 0xB8, CHR 0xD1,
     CHR 0x85] @ '' '' @ [CHR 0xD1, CHR 0x80, CHR 0xD0, CHR 0xB0, CHR 0xD0, CHR 0xB1,
     CHR 0xD0, CHR 0xBE, CHR 0xD1, CHR 0x82] @ '' '' @ [CHR 0xD0, CHR 0xBD, CHR 0xD0,
     CHR 0xB5] @ '' '' @ [CHR 0xD0, CHR 0xB8, CHR 0xD0, CHR 0xB7, CHR 0xD0, CHR 0xBC,
     CHR 0xD0, CHR 0xB5, CHR 0xD0, CHR 0xBD, CHR 0xD0, CHR 0xB8, CHR 0xD0, CHR 0xBB,
     CHR 0xD0, CHR 0xB8, CHR 0xD1, CHR 0x81, CHR 0xD1, CHR 0x8C] @ ''.''"

text \<open>\<^verbatim>\<open>UNEXPECTED_STATUS\<close>, in English: unexpected homework status: {}.\<close>

definition UNEXPECTED_STATUS :: "string \<Rightarrow> string" where
  "UNEXPECTED_STATUS status =
     [CHR 0xD0, CHR 0x9D, CHR 0xD0, CHR 0xB5, CHR 0xD0, CHR 0xBE, CHR 0xD0, CHR 0xB6,
     CHR 0xD0, CHR 0xB8, CHR 0xD0, CHR 0xB4, CHR 0xD0, CHR 0xB0, CHR 0xD0, CHR 0xBD,
     CHR 0xD0, CHR 0xBD, CHR 0xD1, CHR 0x8B, CHR 0xD0, CHR 0xB9] @ '' '' @ [CHR 0xD1,
     CHR 0x81, CHR 0xD1, CHR 0x82, CHR 0xD0, CHR 0xB0, CHR 0xD1, CHR 0x82, CHR 0xD1,
     CHR 0x83, CHR 0xD1, CHR 0x81] @ '' '' @ [CHR 0xD0, CHR 0xB4, CHR 0xD0, CHR 0xBE,
     CHR 0xD0, CHR 0xBC, CHR 0xD0, CHR 0xB0, CHR 0xD1, CHR 0x88, CHR 0xD0, CHR 0xBD,
     CHR 0xD0, CHR 0xB5, CHR 0xD0, CHR 0xB9] @ '' '' @ [CHR 0xD1, CHR 0x80, CHR 0xD0,
     CHR 0xB0, CHR 0xD0, CHR 0xB1, CHR 0xD0, CHR 0xBE, CHR 0xD1, CHR 0x82, CHR 0xD1,
     CHR 0x8B] @ '': '' @ status @ ''.''"

text \<open>The attention prefix that \<^verbatim>\<open>send_message\<close> sends first, a literal of the source.\<close>

definition ATTENTION :: "string" where
  "ATTENTION =
     [CHR 0xD0, CHR 0x92, CHR 0xD0, CHR 0xBD, CHR 0xD0, CHR 0xB8, CHR 0xD0, CHR 0xBC,
     CHR 0xD0, CHR 0xB0, CHR 0xD0, CHR 0xBD, CHR 0xD0, CHR 0xB8, CHR 0xD0,
     CHR 0xB5] @ '' '' @ [CHR 0xE2, CHR 0x9A, CHR 0xA0, CHR 0xEF, CHR 0xB8,
     CHR 0x8F] @ '' '' @ [CHR 0xD0, CHR 0x9F, CHR 0xD0, CHR 0xBE, CHR 0xD1, CHR 0x81,
     CHR 0xD1, CHR 0x82, CHR 0xD1, CHR 0x83, CHR 0xD0, CHR 0xBF, CHR 0xD0, CHR 0xB8,
     CHR 0xD0, CHR 0xBB, CHR 0xD0, CHR 0xB0] @ '' '' @ [CHR 0xD0, CHR 0xB2, CHR 0xD0,
     CHR 0xB0, CHR 0xD0, CHR 0xB6, CHR 0xD0, CHR 0xBD, CHR 0xD0, CHR 0xB0, CHR 0xD1,
     CHR 0x8F] @ '' '' @ [CHR 0xD0, CHR 0xB8, CHR 0xD0, CHR 0xBD, CHR 0xD1, CHR 0x84,
     CHR 0xD0, CHR 0xBE, CHR 0xD1, CHR 0x80, CHR 0xD0, CHR 0xBC, CHR 0xD0, CHR 0xB0,
     CHR 0xD1, CHR 0x86, CHR 0xD0, CHR 0xB8, CHR 0xD1, CHR 0x8F] @ '' '' @ [CHR 0xF0,
     CHR 0x9F, CHR 0x93, CHR 0xA8]"

definition VERDICTS :: "(string \<times> string) list" where
  "VERDICTS =
     [(''approved'', VERDICT_approved), (''rejected'', VERDICT_rejected),
      (''reviewing'', VERDICT_reviewing)]"

section \<open>Exceptions, log lines and the observable trace\<close>

text \<open>
  Modelled from the spec: the module \<^verbatim>\<open>hw_exceptions\<close>, which the source imports and which is
  not part of it, declares \<^verbatim>\<open>BadResponseError\<close>, \<^verbatim>\<open>DenialOfServiceError\<close> and
  \<^verbatim>\<open>MissingVariableError\<close>.  The spec lists them among the errors the poll loop recovers from
  (the first two) or that abort the start (the last), so they are taken as subclasses of
  \<^verbatim>\<open>Exception\<close> built from one message.  \<^verbatim>\<open>JSONDecodeError\<close> is what \<^verbatim>\<open>response.json()\<close> raises
  and \<^verbatim>\<open>InvalidToken\<close> what the constructor of the chat client raises; the other constructors
  are Python's built-in exceptions.  All of them are subclasses of \<^verbatim>\<open>Exception\<close>.  The spec
  calls \<^verbatim>\<open>ConnectionError\<close> \<^emph>\<open>ServiceUnreachable\<close>, \<^verbatim>\<open>KeyError\<close> \<^emph>\<open>MissingField\<close>, \<^verbatim>\<open>TypeError\<close>
  \<^emph>\<open>InvalidShape\<close> and \<^verbatim>\<open>ValueError\<close> \<^emph>\<open>UnknownStatus\<close>.
\<close>

datatype exn =
    ConnectionError string
  | BadResponseError string
  | DenialOfServiceError string
  | MissingVariableError string
  | KeyError string
  | TypeError string
  | ValueError string
  | AttributeError string
  | JSONDecodeError string
  | InvalidToken string

text \<open>
  \<^verbatim>\<open>str(error)\<close>: the message, except for \<^verbatim>\<open>KeyError\<close>, whose \<^verbatim>\<open>str\<close> is the \<^verbatim>\<open>repr\<close> of its
  argument.
\<close>

fun str_exn :: "unicode_db \<Rightarrow> exn \<Rightarrow> string" where
  "str_exn isprintable (ConnectionError m) = m"
| "str_exn isprintable (BadResponseError m) = m"
| "str_exn isprintable (DenialOfServiceError m) = m"
| "str_exn isprintable (MissingVariableError m) = m"
| "str_exn isprintable (KeyError k) = repr_str isprintable k"
| "str_exn isprintable (TypeError m) = m"
| "str_exn isprintable (ValueError m) = m"
| "str_exn isprintable (AttributeError m) = m"
| "str_exn isprintable (JSONDecodeError m) = m"
| "str_exn isprintable (InvalidToken m) = m"

text \<open>
  The messages of the exceptions the interpreter itself raises on a value of the wrong
  type, in the wording of CPython 3.12.  A type name is put between single quotes.
\<close>

definition quoted :: "string \<Rightarrow> string" where
  "quoted s = [CHR 0x27] @ s @ [CHR 0x27]"

definition no_attribute :: "json \<Rightarrow> string \<Rightarrow> exn" where
  "no_attribute v attr =
     AttributeError (quoted (type_name v) @ '' object has no attribute '' @ quoted attr)"

definition not_iterable :: "json \<Rightarrow> exn" where
  "not_iterable v = TypeError (''argument of type '' @ quoted (type_name v) @ '' is not iterable'')"

definition bad_index :: "json \<Rightarrow> exn" where
  "bad_index v =
     (case v of
        JList _ \<Rightarrow> TypeError ''list indices must be integers or slices, not str''
      | JStr _ \<Rightarrow> TypeError (''string indices must be integers, not '' @ quoted ''str'')
      | _ \<Rightarrow> TypeError (quoted (type_name v) @ '' object is not subscriptable''))"

definition unhashable_type :: "json \<Rightarrow> exn" where
  "unhashable_type v = TypeError (''unhashable type: '' @ quoted (type_name v))"

datatype level = DEBUG | INFO | ERROR | CRITICAL

text \<open>
  One call of \<^verbatim>\<open>bot.send_message\<close> either returns or raises an exception, given by its
  \<^verbatim>\<open>str\<close>.  The trace of a run lists its log lines, its chat sends with their outcome and
  its sleeps, in the order in which they happen.
\<close>

datatype send_result = Sent | Raised string

datatype event =
    Log level string
  | BotSend "string option" string send_result
  | Sleep nat

section \<open>Configuration and \<^verbatim>\<open>check_tokens\<close>\<close>

text \<open>The three values \<^verbatim>\<open>os.getenv\<close> returns: \<^verbatim>\<open>None\<close> for a variable that is not set.\<close>

record config =
  PRACTICUM_TOKEN :: "string option"
  MY_CHAT_ID :: "string option"
  AWESOM_O_TOKEN :: "string option"

text \<open>\<^verbatim>\<open>globals()\<close>, restricted to the three names \<^verbatim>\<open>check_tokens\<close> looks up.\<close>

definition globals :: "config \<Rightarrow> (string \<times> string option) list" where
  "globals cfg =
     [(''PRACTICUM_TOKEN'', PRACTICUM_TOKEN cfg), (''MY_CHAT_ID'', MY_CHAT_ID cfg),
      (''AWESOM_O_TOKEN'', AWESOM_O_TOKEN cfg)]"

definition missed_names :: "config \<Rightarrow> string list" where
  "missed_names cfg = filter (\<lambda>name. map_of (globals cfg) name = Some None) VARIABLE_NAMES"

definition check_tokens :: "unicode_db \<Rightarrow> config \<Rightarrow> event list \<times> bool" where
  "check_tokens isprintable cfg =
     (let missed = missed_names cfg
      in (if missed \<noteq> []
          then [Log CRITICAL (MISSED_VARIABLES (py_str isprintable (JList (map JStr missed))))]
          else [],
          missed = []))"

section \<open>\<^verbatim>\<open>get_api_answer\<close>\<close>

definition HEADERS :: "config \<Rightarrow> dict" where
  "HEADERS cfg =
     [(''Authorization'',
       JStr (''OAuth '' @ (case PRACTICUM_TOKEN cfg of None \<Rightarrow> ''None'' | Some token \<Rightarrow> token)))]"

text \<open>The keyword arguments \<^verbatim>\<open>request_params\<close> passes to \<^verbatim>\<open>requests.get\<close>.\<close>

record request_dict =
  url :: string
  headers :: dict
  params :: dict

definition request_params :: "config \<Rightarrow> json \<Rightarrow> request_dict" where
  "request_params cfg timestamp =
     \<lparr>url = ENDPOINT, headers = HEADERS cfg, params = [(''from_date'', timestamp)]\<rparr>"

text \<open>
  What \<^verbatim>\<open>requests.get\<close> does with the request: it raises a \<^verbatim>\<open>RequestException\<close> (given by its
  \<^verbatim>\<open>str\<close>), or it returns a response with a status code and a body.  \<^verbatim>\<open>response.json()\<close>
  raises \<^verbatim>\<open>JSONDecodeError\<close> (given by its \<^verbatim>\<open>str\<close>) on a body that is no JSON text and returns
  the parsed value otherwise: an object, but also a list, a string, a number, a boolean or
  \<^verbatim>\<open>null\<close>.
\<close>

datatype body = NotJSON string | Parsed json

datatype http_result = RequestException string | Response int body

type_synonym transport = "request_dict \<Rightarrow> http_result"

text \<open>
  \<^verbatim>\<open>key in v\<close> for a string \<open>key\<close>: a key of a dict, an element of a list (by \<^verbatim>\<open>==\<close>), a
  substring of a string; \<^verbatim>\<open>TypeError\<close> for a value that is no container.
\<close>

fun substring :: "string \<Rightarrow> string \<Rightarrow> bool" where
  "substring key [] = (key = [])"
| "substring key (c # cs) = (take (length key) (c # cs) = key \<or> substring key cs)"

definition py_contains :: "string \<Rightarrow> json \<Rightarrow> exn + bool" where
  "py_contains key v =
     (case v of
        JDict d \<Rightarrow> Inr (dict_in key d)
      | JList xs \<Rightarrow> Inr (list_ex (\<lambda>x. py_eq x (JStr key)) xs)
      | JStr s \<Rightarrow> Inr (substring key s)
      | _ \<Rightarrow> Inl (not_iterable v))"

text \<open>\<^verbatim>\<open>d[key]\<close> raises \<^verbatim>\<open>KeyError(key)\<close> for an absent key.\<close>

definition getitem :: "dict \<Rightarrow> string \<Rightarrow> exn + json" where
  "getitem d key = (case map_of d key of None \<Rightarrow> Inl (KeyError key) | Some v \<Rightarrow> Inr v)"

text \<open>\<^verbatim>\<open>v[key]\<close> for a string \<open>key\<close>: only a dict can be indexed by a string.\<close>

definition py_getitem :: "json \<Rightarrow> string \<Rightarrow> exn + json" where
  "py_getitem v key = (case v of JDict d \<Rightarrow> getitem d key | _ \<Rightarrow> Inl (bad_index v))"

text \<open>
  The loop \<^verbatim>\<open>for key in ('error', 'code')\<close>: the first key found in the body raises
  \<^verbatim>\<open>DenialOfServiceError\<close>, unless the test or the lookup itself raises.
\<close>

fun denial :: "unicode_db \<Rightarrow> string list \<Rightarrow> json \<Rightarrow> request_dict \<Rightarrow> exn option" where
  "denial isprintable [] response_json rp = None"
| "denial isprintable (key # keys) response_json rp =
     (case py_contains key response_json of
        Inl e \<Rightarrow> Some e
      | Inr False \<Rightarrow> denial isprintable keys response_json rp
      | Inr True \<Rightarrow>
          (case py_getitem response_json key of
             Inl e \<Rightarrow> Some e
           | Inr v \<Rightarrow>
               Some (DenialOfServiceError
                       (DENIAL_OF_SERVICE key (py_str isprintable v) (url rp)
                          (py_str isprintable (JDict (headers rp)))
                          (py_str isprintable (JDict (params rp)))))))"

definition get_api_answer :: "unicode_db \<Rightarrow> config \<Rightarrow> transport \<Rightarrow> json \<Rightarrow> exn + json" where
  "get_api_answer isprintable cfg requests_get timestamp =
     (let rp = request_params cfg timestamp
      in case requests_get rp of
           RequestException error \<Rightarrow>
             Inl (ConnectionError
                    (NO_RESPONSE error (url rp) (py_str isprintable (JDict (headers rp)))
                       (py_str isprintable (JDict (params rp)))))
         | Response status_code response_body \<Rightarrow>
             if status_code \<noteq> 200
             then Inl (BadResponseError
                         (BAD_RESPONSE (str_int status_code) (url rp)
                            (py_str isprintable (JDict (headers rp)))
                            (py_str isprintable (JDict (params rp)))))
             else (case response_body of
                     NotJSON error \<Rightarrow> Inl (JSONDecodeError error)
                   | Parsed response_json \<Rightarrow>
                       (case denial isprintable [''error'', ''code''] response_json rp of
                          Some e \<Rightarrow> Inl e
                        | None \<Rightarrow> Inr response_json)))"

section \<open>\<^verbatim>\<open>check_response\<close>\<close>

text \<open>
  \<^verbatim>\<open>main\<close> calls \<^verbatim>\<open>check_response\<close> after \<^verbatim>\<open>response.get\<close>, which only a dict has, so the
  function is given a dict.  The \<^verbatim>\<open>try\<close> block, then the handler: \<^verbatim>\<open>except KeyError\<close>
  replaces a \<^verbatim>\<open>KeyError\<close> and lets the \<^verbatim>\<open>TypeError\<close> of the block through.
\<close>

definition check_response_try :: "dict \<Rightarrow> exn + json list" where
  "check_response_try response =
     (case getitem response ''homeworks'' of
        Inl e \<Rightarrow> Inl e
      | Inr homeworks \<Rightarrow>
          (case homeworks of JList hs \<Rightarrow> Inr hs | _ \<Rightarrow> Inl (TypeError INVALID_DATA_TYPE)))"

definition check_response :: "dict \<Rightarrow> exn + json list" where
  "check_response response =
     (case check_response_try response of
        Inl (KeyError _) \<Rightarrow> Inl (KeyError MISSING_REQUIRED_KEY)
      | r \<Rightarrow> r)"

section \<open>\<^verbatim>\<open>parse_status\<close>\<close>

text \<open>
  \<^verbatim>\<open>main\<close> calls \<^verbatim>\<open>parse_status\<close> after \<^verbatim>\<open>homeworks[0].get\<close>, so the function is given a dict.
  \<^verbatim>\<open>homework_status not in VERDICTS\<close> hashes the status first, so a list or a dict raises
  \<^verbatim>\<open>TypeError\<close>; a value that is not a string equals no key.  The arguments of
  \<^verbatim>\<open>STATUS_CHANGED.format\<close> are evaluated only for a known status.
\<close>

definition parse_status :: "unicode_db \<Rightarrow> dict \<Rightarrow> exn + string" where
  "parse_status isprintable homework =
     (case getitem homework ''status'' of
        Inl e \<Rightarrow> Inl e
      | Inr homework_status \<Rightarrow>
          if unhashable homework_status
          then Inl (unhashable_type homework_status)
          else (case (case homework_status of JStr s \<Rightarrow> map_of VERDICTS s | _ \<Rightarrow> None) of
                  None \<Rightarrow>
                    Inl (ValueError (UNEXPECTED_STATUS (py_str isprintable homework_status)))
                | Some verdict \<Rightarrow>
                    (case getitem homework ''homework_name'' of
                       Inl e \<Rightarrow> Inl e
                     | Inr name \<Rightarrow> Inr (STATUS_CHANGED (py_str isprintable name) verdict))))"

section \<open>\<^verbatim>\<open>send_message\<close> and the module's mutable globals\<close>

text \<open>
  \<open>timestamp\<close> is the local variable of \<^verbatim>\<open>main\<close>; the other three fields are the module
  globals \<^verbatim>\<open>current_hw_id\<close>, \<^verbatim>\<open>last_message\<close> and \<^verbatim>\<open>last_message_hw_id\<close>.
\<close>

record state =
  timestamp :: json
  current_hw_id :: json
  last_message :: "string option"
  last_message_hw_id :: json

text \<open>The outcomes of the two \<^verbatim>\<open>bot.send_message\<close> calls one \<^verbatim>\<open>send_message\<close> can make.\<close>

type_synonym bot = "send_result \<times> send_result"

text \<open>
  The \<^verbatim>\<open>try\<close> block of \<^verbatim>\<open>send_message\<close>: the attention prefix, the message, the info line and
  the two assignments; an exception of a send leaves the block at once.
\<close>

definition send_message_try :: "config \<Rightarrow> bot \<Rightarrow> string \<Rightarrow> state \<Rightarrow> event list \<times> (string + state)" where
  "send_message_try cfg bot_obj message st =
     (case fst bot_obj of
        Raised error \<Rightarrow> ([BotSend (MY_CHAT_ID cfg) ATTENTION (Raised error)], Inl error)
      | Sent \<Rightarrow>
          (case snd bot_obj of
             Raised error \<Rightarrow>
               ([BotSend (MY_CHAT_ID cfg) ATTENTION Sent,
                 BotSend (MY_CHAT_ID cfg) message (Raised error)], Inl error)
           | Sent \<Rightarrow>
               ([BotSend (MY_CHAT_ID cfg) ATTENTION Sent,
                 BotSend (MY_CHAT_ID cfg) message Sent,
                 Log INFO (MESSAGE_SENT message)],
                Inr (st\<lparr>last_message := Some message,
                        last_message_hw_id := current_hw_id st\<rparr>))))"

definition send_message :: "config \<Rightarrow> bot \<Rightarrow> string \<Rightarrow> state \<Rightarrow> event list \<times> state" where
  "send_message cfg bot_obj message st =
     (if last_message st = Some message \<and> py_eq (last_message_hw_id st) (current_hw_id st)
      then ([], st)
      else (case send_message_try cfg bot_obj message st of
              (evs, Inr st') \<Rightarrow> (evs, st')
            | (evs, Inl error) \<Rightarrow> (evs @ [Log ERROR (MESSAGE_SENDING_FAILED error)], st)))"

section \<open>\<^verbatim>\<open>main\<close>\<close>

text \<open>
  The \<^verbatim>\<open>try\<close> block of one iteration.  It returns the trace, the state reached and the
  exception that left the block, if any: the assignments made before a \<^verbatim>\<open>raise\<close> stay.
  \<^verbatim>\<open>response.get('current_date', timestamp)\<close> raises \<^verbatim>\<open>AttributeError\<close> for a body that is
  not a dict, before the cursor is assigned, and \<^verbatim>\<open>homeworks[0].get('id')\<close> does so for an
  element that is not a dict, before \<^verbatim>\<open>current_hw_id\<close> is assigned.
\<close>

definition main_try ::
  "unicode_db \<Rightarrow> config \<Rightarrow> transport \<Rightarrow> bot \<Rightarrow> state \<Rightarrow> event list \<times> state \<times> exn option" where
  "main_try isprintable cfg requests_get bot_obj st =
     (case get_api_answer isprintable cfg requests_get (timestamp st) of
        Inl e \<Rightarrow> ([], st, Some e)
      | Inr response_json \<Rightarrow>
          (case response_json of
             JDict response \<Rightarrow>
               (let st1 = st\<lparr>timestamp := dict_get response ''current_date'' (timestamp st)\<rparr>
                in case check_response response of
                     Inl e \<Rightarrow> ([], st1, Some e)
                   | Inr homeworks \<Rightarrow>
                       (case homeworks of
                          [] \<Rightarrow> ([Log DEBUG STATUSES_NOT_CHANGED], st1, None)
                        | hw # _ \<Rightarrow>
                            (case hw of
                               JDict homework \<Rightarrow>
                                 (let st2 = st1\<lparr>current_hw_id := dict_get homework ''id'' JNull\<rparr>
                                  in case parse_status isprintable homework of
                                       Inl e \<Rightarrow> ([], st2, Some e)
                                     | Inr message \<Rightarrow>
                                         (case send_message cfg bot_obj message st2 of
                                            (evs, st3) \<Rightarrow> (evs, st3, None)))
                             | _ \<Rightarrow> ([], st1, Some (no_attribute hw ''get'')))))
           | _ \<Rightarrow> ([], st, Some (no_attribute response_json ''get''))))"

text \<open>
  One iteration: the \<^verbatim>\<open>try\<close> block, the handler \<^verbatim>\<open>except Exception\<close>, which takes every
  exception of the model, then \<^verbatim>\<open>finally\<close>.
\<close>

definition cycle ::
  "unicode_db \<Rightarrow> config \<Rightarrow> transport \<Rightarrow> bot \<Rightarrow> state \<Rightarrow> event list \<times> state" where
  "cycle isprintable cfg requests_get bot_obj st =
     (case main_try isprintable cfg requests_get bot_obj st of
        (evs, st', None) \<Rightarrow> (evs @ [Sleep RETRY_TIME], st')
      | (evs, st', Some error) \<Rightarrow>
          (case send_message cfg bot_obj (ERROR_FOUND (str_exn isprintable error)) st' of
             (evs', st'') \<Rightarrow>
               (evs @ [Log ERROR (ERROR_FOUND (str_exn isprintable error))] @ evs'
                  @ [Sleep RETRY_TIME],
                st'')))"

text \<open>
  The world of a run gives, for the iteration with a given number, what the transport and
  the chat client do.  \<open>step\<close> is one pass through \<^verbatim>\<open>while True\<close> on the trace so far and
  the state; \<open>run_cycles\<close> makes a given number of passes.  \<^verbatim>\<open>while True\<close> has no \<^verbatim>\<open>break\<close>
  and no \<^verbatim>\<open>return\<close>, and an iteration lets no exception through, so after any number of
  passes the loop is still running.
\<close>

type_synonym world = "nat \<Rightarrow> transport \<times> bot"

definition step ::
  "unicode_db \<Rightarrow> config \<Rightarrow> world \<Rightarrow> nat \<Rightarrow> event list \<times> state \<Rightarrow> event list \<times> state" where
  "step isprintable cfg world i s =
     (case cycle isprintable cfg (fst (world i)) (snd (world i)) (snd s) of
        (evs, st') \<Rightarrow> (fst s @ evs, st'))"

fun run_cycles ::
  "unicode_db \<Rightarrow> config \<Rightarrow> world \<Rightarrow> nat \<Rightarrow> nat \<Rightarrow> event list \<times> state \<Rightarrow> event list \<times> state" where
  "run_cycles isprintable cfg world i 0 s = s"
| "run_cycles isprintable cfg world i (Suc n) s =
     run_cycles isprintable cfg world (Suc i) n (step isprintable cfg world i s)"



definition initial_state :: "int \<Rightarrow> state" where
  "initial_state now =
     \<lparr>timestamp = JInt now, current_hw_id = JNull, last_message = None,
      last_message_hw_id = JNull\<rparr>"


section \<open>Observations on traces and sample inputs\<close>

text \<open>The trace of one delivery the chat client accepts, and the chat sends of a trace.\<close>

definition delivery :: "config \<Rightarrow> string \<Rightarrow> event list" where
  "delivery cfg message =
     [BotSend (MY_CHAT_ID cfg) ATTENTION Sent, BotSend (MY_CHAT_ID cfg) message Sent,
      Log INFO (MESSAGE_SENT message)]"





fun delivers :: "string \<Rightarrow> event \<Rightarrow> bool" where
  "delivers message (BotSend chat text r) = (text = message \<and> r = Sent)"
| "delivers message (Log l m) = False"
| "delivers message (Sleep n) = False"

definition copies :: "string \<Rightarrow> event list \<Rightarrow> nat" where
  "copies message evs = length (filter (delivers message) evs)"

text \<open>
  The order on cursors that are integers, and the runs in which the service never reports a
  \<^verbatim>\<open>current_date\<close> below the cursor it was asked with.
\<close>

definition cursor_le :: "json \<Rightarrow> json \<Rightarrow> bool" where
  "cursor_le a b = (case (a, b) of (JInt x, JInt y) \<Rightarrow> x \<le> y | _ \<Rightarrow> False)"

definition date_advances :: "unicode_db \<Rightarrow> config \<Rightarrow> transport \<Rightarrow> state \<Rightarrow> bool" where
  "date_advances isprintable cfg requests_get st =
     (case get_api_answer isprintable cfg requests_get (timestamp st) of
        Inr (JDict body) \<Rightarrow>
          (case map_of body ''current_date'' of
             None \<Rightarrow> True
           | Some d \<Rightarrow> cursor_le (timestamp st) d)
      | _ \<Rightarrow> True)"

fun dates_advance ::
  "unicode_db \<Rightarrow> config \<Rightarrow> world \<Rightarrow> nat \<Rightarrow> nat \<Rightarrow> event list \<times> state \<Rightarrow> bool" where
  "dates_advance isprintable cfg world i 0 s = True"
| "dates_advance isprintable cfg world i (Suc n) s =
     (date_advances isprintable cfg (fst (world i)) (snd s)
      \<and> dates_advance isprintable cfg world (Suc i) n (step isprintable cfg world i s))"

text \<open>
  A sample of the Unicode database for the places where a statement is instantiated: the
  printable code points of the Latin and Cyrillic blocks, and no code point of another
  block.
\<close>

definition sample_db :: unicode_db where
  "sample_db cp = ((0xA1 \<le> cp \<and> cp \<le> 0x24F \<and> cp \<noteq> 0xAD) \<or> (0x400 \<le> cp \<and> cp \<le> 0x4FF))"

text \<open>
  A configuration with the three variables set, and a constructor of the chat client that
  rejects the empty token, as the library does, and accepts every other one.
\<close>

definition sample_config :: config where
  "sample_config =
     \<lparr>PRACTICUM_TOKEN = Some ''practicum-token'', MY_CHAT_ID = Some ''4242'',
      AWESOM_O_TOKEN = Some ''123456:bot-token''\<rparr>"




definition outage :: transport where
  "outage = (\<lambda>rp. RequestException ''connection refused'')"


text \<open>
  A service with nothing new that reports a later date, and one that reports a date before
  the cursor it is asked with.
\<close>

definition quiet :: transport where
  "quiet =
     (\<lambda>rp. Response 200
             (Parsed (JDict [(''homeworks'', JList []), (''current_date'', JInt 1700000600)])))"

definition quiet_world :: world where
  "quiet_world = (\<lambda>i. (quiet, (Sent, Sent)))"

definition stale :: transport where
  "stale =
     (\<lambda>rp. Response 200
             (Parsed (JDict [(''homeworks'', JList []), (''current_date'', JInt 1600000000)])))"

text \<open>The exception of \<^verbatim>\<open>get_api_answer\<close> when the network is down at cursor 1700000000.\<close>

definition outage_error :: exn where
  "outage_error =
     ConnectionError
       (NO_RESPONSE ''connection refused'' ENDPOINT
          (py_str sample_db (JDict (HEADERS sample_config)))
          (py_str sample_db (JDict [(''from_date'', JInt 1700000000)])))"

text \<open>
  Bodies with status 200 that are no JSON object: a page that is no JSON text, the number 5
  and the JSON string "error: quota".
\<close>

definition not_json :: transport where
  "not_json = (\<lambda>rp. Response 200 (NotJSON ''Expecting value: line 1 column 1 (char 0)''))"

definition number_body :: transport where
  "number_body = (\<lambda>rp. Response 200 (Parsed (JInt 5)))"

definition text_body :: transport where
  "text_body = (\<lambda>rp. Response 200 (Parsed (JStr ''error: quota'')))"

definition list_body :: transport where
  "list_body = (\<lambda>rp. Response 200 (Parsed (JList [])))"




section \<open>The configuration check\<close>

lemma missed_names_explicit:
  "missed_names cfg =
     (if PRACTICUM_TOKEN cfg = None then [''PRACTICUM_TOKEN''] else [])
     @ (if AWESOM_O_TOKEN cfg = None then [''AWESOM_O_TOKEN''] else [])
     @ (if MY_CHAT_ID cfg = None then [''MY_CHAT_ID''] else [])"
  by (simp add: missed_names_def globals_def VARIABLE_NAMES_def)

lemma check_tokens_ok: "snd (check_tokens pr cfg) \<longleftrightarrow> missed_names cfg = []"
  by (simp add: check_tokens_def Let_def)

text \<open>
  Claim C7, as the code has it.  \<^verbatim>\<open>check_tokens\<close> returns true if and only if each of the three
  variables is set, that is, is not \<^verbatim>\<open>None\<close>; a variable set to the empty string counts as
  present.  The missed names are the unset variables in the order \<^verbatim>\<open>PRACTICUM_TOKEN\<close>,
  \<^verbatim>\<open>AWESOM_O_TOKEN\<close>, \<^verbatim>\<open>MY_CHAT_ID\<close>.  When some variable is unset the function returns false
  and logs one line at level critical, \<^verbatim>\<open>MISSED_VARIABLES\<close> filled with the list of exactly the
  missed names; when none is, it logs nothing.
\<close>

theorem check_tokens_presence:
  "(snd (check_tokens pr cfg) \<longleftrightarrow>
      PRACTICUM_TOKEN cfg \<noteq> None \<and> AWESOM_O_TOKEN cfg \<noteq> None \<and> MY_CHAT_ID cfg \<noteq> None)
   \<and> missed_names cfg =
      (if PRACTICUM_TOKEN cfg = None then [''PRACTICUM_TOKEN''] else [])
      @ (if AWESOM_O_TOKEN cfg = None then [''AWESOM_O_TOKEN''] else [])
      @ (if MY_CHAT_ID cfg = None then [''MY_CHAT_ID''] else [])
   \<and> (missed_names cfg \<noteq> [] \<longrightarrow>
        check_tokens pr cfg =
          ([Log CRITICAL (MISSED_VARIABLES (py_repr pr (JList (map JStr (missed_names cfg)))))],
           False))
   \<and> (missed_names cfg = [] \<longrightarrow> check_tokens pr cfg = ([], True))"
proof -
  have "missed_names cfg = [] \<longleftrightarrow>
      PRACTICUM_TOKEN cfg \<noteq> None \<and> AWESOM_O_TOKEN cfg \<noteq> None \<and> MY_CHAT_ID cfg \<noteq> None"
    by (simp add: missed_names_explicit)
  moreover have "missed_names cfg \<noteq> [] \<longrightarrow>
        check_tokens pr cfg =
          ([Log CRITICAL (MISSED_VARIABLES (py_repr pr (JList (map JStr (missed_names cfg)))))],
           False)"
    by (simp add: check_tokens_def Let_def py_str_def)
  moreover have "missed_names cfg = [] \<longrightarrow> check_tokens pr cfg = ([], True)"
    by (simp add: check_tokens_def Let_def)
  ultimately show ?thesis
    using missed_names_explicit [of cfg] check_tokens_ok [of pr cfg] by blast
qed

theorem check_tokens_presence_witness:
  "check_tokens sample_db sample_config = ([], True)
   \<and> check_tokens sample_db
        \<lparr>PRACTICUM_TOKEN = None, MY_CHAT_ID = None, AWESOM_O_TOKEN = Some ''bot-token''\<rparr>
       = ([Log CRITICAL
            (MISSED_VARIABLES
               (''['' @ [CHR 0x27] @ ''PRACTICUM_TOKEN'' @ [CHR 0x27] @ '', ''
                 @ [CHR 0x27] @ ''MY_CHAT_ID'' @ [CHR 0x27] @ '']''))], False)"
  using check_tokens_presence [of sample_db sample_config]
    check_tokens_presence
      [of sample_db
          "\<lparr>PRACTICUM_TOKEN = None, MY_CHAT_ID = None, AWESOM_O_TOKEN = Some ''bot-token''\<rparr>"]
  by (simp add: sample_config_def repr_str_def escape_char_def Let_def)

text \<open>
  The claim as it was stated, true only when all three values are non-empty strings, fails
  where a variable is set to the empty string: the check passes.
\<close>

theorem check_tokens_empty_string_counterexample:
  "check_tokens sample_db \<lparr>PRACTICUM_TOKEN = Some '''', MY_CHAT_ID = Some ''4242'',
                  AWESOM_O_TOKEN = Some ''bot-token''\<rparr> = ([], True)"
  by (simp add: check_tokens_def missed_names_def globals_def VARIABLE_NAMES_def)

section \<open>The API client\<close>

lemma get_api_answer_cases:
  "get_api_answer pr cfg requests_get ts =
     (case requests_get (request_params cfg ts) of
        RequestException error \<Rightarrow>
          Inl (ConnectionError
                 (NO_RESPONSE error ENDPOINT (py_str pr (JDict (HEADERS cfg)))
                    (py_str pr (JDict [(''from_date'', ts)]))))
      | Response status_code response_body \<Rightarrow>
          if status_code \<noteq> 200
          then Inl (BadResponseError
                      (BAD_RESPONSE (str_int status_code) ENDPOINT (py_str pr (JDict (HEADERS cfg)))
                         (py_str pr (JDict [(''from_date'', ts)]))))
          else (case response_body of
                  NotJSON error \<Rightarrow> Inl (JSONDecodeError error)
                | Parsed response_json \<Rightarrow>
                    (case denial pr [''error'', ''code''] response_json (request_params cfg ts) of
                       Some e \<Rightarrow> Inl e
                     | None \<Rightarrow> Inr response_json)))"
  by (simp add: get_api_answer_def request_params_def Let_def
      split: http_result.splits body.splits)

lemma denial_error:
  "map_of body ''error'' = Some v \<Longrightarrow>
   denial pr [''error'', ''code''] (JDict body) (request_params cfg ts) =
     Some (DenialOfServiceError
             (DENIAL_OF_SERVICE ''error'' (py_str pr v) ENDPOINT (py_str pr (JDict (HEADERS cfg)))
                (py_str pr (JDict [(''from_date'', ts)]))))"
  by (simp add: request_params_def py_contains_def py_getitem_def getitem_def dict_in_def)

lemma denial_code:
  "map_of body ''error'' = None \<Longrightarrow> map_of body ''code'' = Some v \<Longrightarrow>
   denial pr [''error'', ''code''] (JDict body) (request_params cfg ts) =
     Some (DenialOfServiceError
             (DENIAL_OF_SERVICE ''code'' (py_str pr v) ENDPOINT (py_str pr (JDict (HEADERS cfg)))
                (py_str pr (JDict [(''from_date'', ts)]))))"
  by (simp add: request_params_def py_contains_def py_getitem_def getitem_def dict_in_def)

lemma denial_none:
  "map_of body ''error'' = None \<Longrightarrow> map_of body ''code'' = None \<Longrightarrow>
   denial pr [''error'', ''code''] (JDict body) rp = None"
  by (simp add: py_contains_def dict_in_def)

text \<open>The two denial messages differ at the key they name.\<close>

lemma DENIAL_OF_SERVICE_names_key:
  "DENIAL_OF_SERVICE ''error'' a u h p \<noteq> DENIAL_OF_SERVICE ''code'' b u' h' p'"
  by (simp add: DENIAL_OF_SERVICE_def)

text \<open>
  Claim C2, as the code has it.  \<^verbatim>\<open>get_api_answer\<close> sorts the outcomes of the request it is
  written for into four classes.  A transport failure raises \<^verbatim>\<open>ConnectionError\<close>, whose message
  is \<^verbatim>\<open>NO_RESPONSE\<close> filled with the transport error, the URL, the headers and the query; no
  body is returned.  A status code other than 200 raises \<^verbatim>\<open>BadResponseError\<close>, whose message
  holds the status code and the same request parameters.  A body with status 200 that
  parses to a JSON object with a key \<^verbatim>\<open>error\<close> or \<^verbatim>\<open>code\<close> raises \<^verbatim>\<open>DenialOfServiceError\<close>,
  whose message holds the key, its value and the request parameters.  A body with status
  200 that parses to a JSON object with neither key is returned as it is.
\<close>

theorem get_api_answer_classifies:
  "(requests_get (request_params cfg ts) = RequestException error \<longrightarrow>
      get_api_answer pr cfg requests_get ts =
        Inl (ConnectionError
               (NO_RESPONSE error ENDPOINT (py_str pr (JDict (HEADERS cfg)))
                  (py_str pr (JDict [(''from_date'', ts)])))))
   \<and> (requests_get (request_params cfg ts) = Response status_code response_body \<longrightarrow>
        status_code \<noteq> 200 \<longrightarrow>
      get_api_answer pr cfg requests_get ts =
        Inl (BadResponseError
               (BAD_RESPONSE (str_int status_code) ENDPOINT (py_str pr (JDict (HEADERS cfg)))
                  (py_str pr (JDict [(''from_date'', ts)])))))
   \<and> (requests_get (request_params cfg ts) = Response 200 (Parsed (JDict body)) \<longrightarrow>
        map_of body ''error'' = Some v \<longrightarrow>
      get_api_answer pr cfg requests_get ts =
        Inl (DenialOfServiceError
               (DENIAL_OF_SERVICE ''error'' (py_str pr v) ENDPOINT (py_str pr (JDict (HEADERS cfg)))
                  (py_str pr (JDict [(''from_date'', ts)])))))
   \<and> (requests_get (request_params cfg ts) = Response 200 (Parsed (JDict body)) \<longrightarrow>
        map_of body ''error'' = None \<longrightarrow> map_of body ''code'' = Some v \<longrightarrow>
      get_api_answer pr cfg requests_get ts =
        Inl (DenialOfServiceError
               (DENIAL_OF_SERVICE ''code'' (py_str pr v) ENDPOINT (py_str pr (JDict (HEADERS cfg)))
                  (py_str pr (JDict [(''from_date'', ts)])))))
   \<and> (requests_get (request_params cfg ts) = Response 200 (Parsed (JDict body)) \<longrightarrow>
        \<not> dict_in ''error'' body \<longrightarrow> \<not> dict_in ''code'' body \<longrightarrow>
      get_api_answer pr cfg requests_get ts = Inr (JDict body))"
proof (intro conjI impI)
  assume "requests_get (request_params cfg ts) = RequestException error"
  then show "get_api_answer pr cfg requests_get ts =
        Inl (ConnectionError
               (NO_RESPONSE error ENDPOINT (py_str pr (JDict (HEADERS cfg)))
                  (py_str pr (JDict [(''from_date'', ts)]))))"
    by (simp add: get_api_answer_cases)
next
  assume "requests_get (request_params cfg ts) = Response status_code response_body"
    and "status_code \<noteq> 200"
  then show "get_api_answer pr cfg requests_get ts =
        Inl (BadResponseError
               (BAD_RESPONSE (str_int status_code) ENDPOINT (py_str pr (JDict (HEADERS cfg)))
                  (py_str pr (JDict [(''from_date'', ts)]))))"
    by (simp add: get_api_answer_cases)
next
  assume "requests_get (request_params cfg ts) = Response 200 (Parsed (JDict body))"
    and "map_of body ''error'' = Some v"
  then show "get_api_answer pr cfg requests_get ts =
        Inl (DenialOfServiceError
               (DENIAL_OF_SERVICE ''error'' (py_str pr v) ENDPOINT (py_str pr (JDict (HEADERS cfg)))
                  (py_str pr (JDict [(''from_date'', ts)]))))"
    by (simp add: get_api_answer_cases denial_error del: denial.simps)
next
  assume "requests_get (request_params cfg ts) = Response 200 (Parsed (JDict body))"
    and "map_of body ''error'' = None" and "map_of body ''code'' = Some v"
  then show "get_api_answer pr cfg requests_get ts =
        Inl (DenialOfServiceError
               (DENIAL_OF_SERVICE ''code'' (py_str pr v) ENDPOINT (py_str pr (JDict (HEADERS cfg)))
                  (py_str pr (JDict [(''from_date'', ts)]))))"
    by (simp add: get_api_answer_cases denial_code del: denial.simps)
next
  assume "requests_get (request_params cfg ts) = Response 200 (Parsed (JDict body))"
    and "\<not> dict_in ''error'' body" and "\<not> dict_in ''code'' body"
  then show "get_api_answer pr cfg requests_get ts = Inr (JDict body)"
    by (simp add: get_api_answer_cases denial_none dict_in_def del: denial.simps)
qed

theorem get_api_answer_classifies_witness:
  "get_api_answer sample_db sample_config (\<lambda>_. RequestException ''timed out'')
        (JInt 1700000000) =
     Inl (ConnectionError
            (NO_RESPONSE ''timed out'' ENDPOINT (py_str sample_db (JDict (HEADERS sample_config)))
               (py_str sample_db (JDict [(''from_date'', JInt 1700000000)]))))
   \<and> get_api_answer sample_db sample_config (\<lambda>_. Response 404 (NotJSON ''Not Found''))
        (JInt 1700000000) =
     Inl (BadResponseError
            (BAD_RESPONSE (str_int 404) ENDPOINT (py_str sample_db (JDict (HEADERS sample_config)))
               (py_str sample_db (JDict [(''from_date'', JInt 1700000000)]))))
   \<and> get_api_answer sample_db sample_config
        (\<lambda>_. Response 200 (Parsed (JDict [(''error'', JStr ''bad_request'')])))
        (JInt 1700000000) =
     Inl (DenialOfServiceError
            (DENIAL_OF_SERVICE ''error'' ''bad_request'' ENDPOINT
               (py_str sample_db (JDict (HEADERS sample_config)))
               (py_str sample_db (JDict [(''from_date'', JInt 1700000000)]))))
   \<and> get_api_answer sample_db sample_config
        (\<lambda>_. Response 200 (Parsed (JDict [(''code'', JStr ''not_authenticated'')])))
        (JInt 1700000000) =
     Inl (DenialOfServiceError
            (DENIAL_OF_SERVICE ''code'' ''not_authenticated'' ENDPOINT
               (py_str sample_db (JDict (HEADERS sample_config)))
               (py_str sample_db (JDict [(''from_date'', JInt 1700000000)]))))
   \<and> get_api_answer sample_db sample_config quiet (JInt 1700000000) =
     Inr (JDict [(''homeworks'', JList []), (''current_date'', JInt 1700000600)])"
  using
    get_api_answer_classifies
      [where pr = sample_db and cfg = sample_config and ts = "JInt 1700000000"
         and requests_get = "\<lambda>_. RequestException ''timed out''" and error = "''timed out''"
         and status_code = 0 and response_body = "NotJSON []" and body = "[]" and v = JNull]
    get_api_answer_classifies
      [where pr = sample_db and cfg = sample_config and ts = "JInt 1700000000"
         and requests_get = "\<lambda>_. Response 404 (NotJSON ''Not Found'')" and error = "[]"
         and status_code = 404 and response_body = "NotJSON ''Not Found''" and body = "[]"
         and v = JNull]
    get_api_answer_classifies
      [where pr = sample_db and cfg = sample_config and ts = "JInt 1700000000"
         and requests_get = "\<lambda>_. Response 200 (Parsed (JDict [(''error'', JStr ''bad_request'')]))"
         and error = "[]" and status_code = 200 and response_body = "NotJSON []"
         and body = "[(''error'', JStr ''bad_request'')]" and v = "JStr ''bad_request''"]
    get_api_answer_classifies
      [where pr = sample_db and cfg = sample_config and ts = "JInt 1700000000"
         and requests_get =
           "\<lambda>_. Response 200 (Parsed (JDict [(''code'', JStr ''not_authenticated'')]))"
         and error = "[]" and status_code = 200 and response_body = "NotJSON []"
         and body = "[(''code'', JStr ''not_authenticated'')]"
         and v = "JStr ''not_authenticated''"]
    get_api_answer_classifies
      [where pr = sample_db and cfg = sample_config and ts = "JInt 1700000000"
         and requests_get = quiet and error = "[]" and status_code = 200
         and response_body = "NotJSON []"
         and body = "[(''homeworks'', JList []), (''current_date'', JInt 1700000600)]"
         and v = JNull]
  by (simp add: py_str_def dict_in_def quiet_def)

text \<open>
  The claim as it was stated, that these four classes cover every outcome, fails for a
  response with status 200 whose body is no JSON object.  The number 5 holds no key and is
  not returned: the test \<^verbatim>\<open>key in response_json\<close> raises \<^verbatim>\<open>TypeError\<close>.  The JSON string
  "error: quota" passes that test as a substring and the lookup \<^verbatim>\<open>response_json[key]\<close> raises
  \<^verbatim>\<open>TypeError\<close>.  A body that is no JSON text makes \<^verbatim>\<open>response.json()\<close> raise
  \<^verbatim>\<open>JSONDecodeError\<close>, outside the \<^verbatim>\<open>try\<close> of the function.
\<close>

theorem get_api_answer_counterexample:
  "get_api_answer sample_db sample_config number_body (JInt 1700000000) =
     Inl (TypeError (''argument of type '' @ [CHR 0x27] @ ''int'' @ [CHR 0x27] @ '' is not iterable''))
   \<and> get_api_answer sample_db sample_config text_body (JInt 1700000000) =
     Inl (TypeError (''string indices must be integers, not '' @ [CHR 0x27] @ ''str'' @ [CHR 0x27]))
   \<and> get_api_answer sample_db sample_config not_json (JInt 1700000000) =
     Inl (JSONDecodeError ''Expecting value: line 1 column 1 (char 0)'')"
  by (simp add: get_api_answer_cases number_body_def text_body_def not_json_def py_contains_def
      py_getitem_def not_iterable_def bad_index_def quoted_def type_name_def)

text \<open>
  Claim C9.  For every body with status 200 that holds both an \<^verbatim>\<open>error\<close> and a \<^verbatim>\<open>code\<close> key,
  \<^verbatim>\<open>get_api_answer\<close> raises \<^verbatim>\<open>DenialOfServiceError\<close> naming the key \<^verbatim>\<open>error\<close> and its value: the
  keys are tested in the order \<^verbatim>\<open>error\<close>, \<^verbatim>\<open>code\<close>, and the first one found is the one
  reported, not \<^verbatim>\<open>code\<close>.
\<close>

theorem denial_reports_error_first:
  assumes "requests_get (request_params cfg ts) = Response 200 (Parsed (JDict body))"
    and "map_of body ''error'' = Some v"
    and "map_of body ''code'' = Some w"
  shows "get_api_answer pr cfg requests_get ts =
           Inl (DenialOfServiceError
                  (DENIAL_OF_SERVICE ''error'' (py_str pr v) ENDPOINT (py_str pr (JDict (HEADERS cfg)))
                     (py_str pr (JDict [(''from_date'', ts)]))))
         \<and> get_api_answer pr cfg requests_get ts \<noteq>
           Inl (DenialOfServiceError
                  (DENIAL_OF_SERVICE ''code'' (py_str pr w) ENDPOINT (py_str pr (JDict (HEADERS cfg)))
                     (py_str pr (JDict [(''from_date'', ts)]))))"
  using assms
  by (simp add: get_api_answer_cases denial_error DENIAL_OF_SERVICE_names_key del: denial.simps)

theorem denial_reports_error_first_witness:
  "get_api_answer sample_db sample_config
     (\<lambda>_. Response 200
            (Parsed (JDict [(''code'', JStr ''not_authenticated''),
                            (''error'', JStr ''bad_request'')])))
     (JInt 1700000000) =
   Inl (DenialOfServiceError
          (DENIAL_OF_SERVICE ''error'' ''bad_request'' ENDPOINT
             (py_str sample_db (JDict (HEADERS sample_config)))
             (py_str sample_db (JDict [(''from_date'', JInt 1700000000)]))))"
  using denial_reports_error_first
    [where pr = sample_db and cfg = sample_config and ts = "JInt 1700000000"
       and requests_get =
         "\<lambda>_. Response 200
                (Parsed (JDict [(''code'', JStr ''not_authenticated''),
                                (''error'', JStr ''bad_request'')]))"
       and body = "[(''code'', JStr ''not_authenticated''), (''error'', JStr ''bad_request'')]"
       and v = "JStr ''bad_request''" and w = "JStr ''not_authenticated''"]
  by (simp add: py_str_def)

section \<open>The response parser\<close>

text \<open>
  Claim C4.  \<^verbatim>\<open>check_response\<close> raises \<^verbatim>\<open>KeyError\<close> with the message "required key absent"
  for every body without the key \<^verbatim>\<open>homeworks\<close>, raises \<^verbatim>\<open>TypeError\<close> with the message
  "homeworks are not a list" for every body whose \<^verbatim>\<open>homeworks\<close> value is not a list, and
  otherwise returns the list found under \<^verbatim>\<open>homeworks\<close> as it is, whatever its elements are.
\<close>

theorem check_response_classifies:
  "(map_of response ''homeworks'' = None \<longrightarrow>
      check_response response = Inl (KeyError MISSING_REQUIRED_KEY))
   \<and> (map_of response ''homeworks'' = Some v \<longrightarrow> (\<forall>hs. v \<noteq> JList hs) \<longrightarrow>
      check_response response = Inl (TypeError INVALID_DATA_TYPE))
   \<and> (map_of response ''homeworks'' = Some (JList hs) \<longrightarrow>
      check_response response = Inr hs)"
  by (cases v) (simp_all add: check_response_def check_response_try_def getitem_def)

theorem check_response_classifies_witness:
  "check_response [(''current_date'', JInt 1700000000)] = Inl (KeyError MISSING_REQUIRED_KEY)
   \<and> check_response [(''homeworks'', JStr ''not a list'')] = Inl (TypeError INVALID_DATA_TYPE)
   \<and> check_response [(''homeworks'', JList [JInt 7, JNull]), (''current_date'', JInt 1700000000)]
       = Inr [JInt 7, JNull]"
  using check_response_classifies [of "[(''current_date'', JInt 1700000000)]" JNull "[]"]
    check_response_classifies [of "[(''homeworks'', JStr ''not a list'')]" "JStr ''not a list''" "[]"]
    check_response_classifies
      [of "[(''homeworks'', JList [JInt 7, JNull]), (''current_date'', JInt 1700000000)]"
          JNull "[JInt 7, JNull]"]
  by simp

section \<open>The status translator\<close>

lemma VERDICTS_keys:
  "(map_of VERDICTS s \<noteq> None) = (s \<in> {''approved'', ''rejected'', ''reviewing''})"
  by (simp add: VERDICTS_def)

text \<open>The filled template holds the name between double quotes and ends with the verdict.\<close>

lemma STATUS_CHANGED_contains:
  "\<exists>p. STATUS_CHANGED name verdict = p @ [CHR 0x22] @ name @ [CHR 0x22] @ ''. '' @ verdict"
  by (rule exI [of _ "take 62 (STATUS_CHANGED [] [])"]) (simp add: STATUS_CHANGED_def)

text \<open>
  Claim C5, as the code has it.  For every homework dict whose \<^verbatim>\<open>status\<close> is one of
  \<^verbatim>\<open>approved\<close>, \<^verbatim>\<open>rejected\<close>, \<^verbatim>\<open>reviewing\<close> and which has a \<^verbatim>\<open>homework_name\<close> key,
  \<^verbatim>\<open>parse_status\<close> returns \<^verbatim>\<open>STATUS_CHANGED\<close> filled with the name and the verdict text that
  \<^verbatim>\<open>VERDICTS\<close> maps the status to, so the result holds the name and ends with the verdict
  sentence.  For every homework dict whose \<^verbatim>\<open>status\<close> is a hashable value (anything but a
  list or a dict) outside these three, it raises \<^verbatim>\<open>ValueError\<close> naming that value.
\<close>

theorem parse_status_translates:
  "(map_of homework ''status'' = Some (JStr s) \<longrightarrow> map_of VERDICTS s = Some verdict \<longrightarrow>
      map_of homework ''homework_name'' = Some name \<longrightarrow>
      parse_status pr homework = Inr (STATUS_CHANGED (py_str pr name) verdict)
      \<and> (\<exists>p. STATUS_CHANGED (py_str pr name) verdict =
                p @ [CHR 0x22] @ py_str pr name @ [CHR 0x22] @ ''. '' @ verdict))
   \<and> (map_of VERDICTS s \<noteq> None \<longleftrightarrow> s \<in> {''approved'', ''rejected'', ''reviewing''})
   \<and> (map_of homework ''status'' = Some st \<longrightarrow> \<not> unhashable st \<longrightarrow>
        st \<notin> {JStr ''approved'', JStr ''rejected'', JStr ''reviewing''} \<longrightarrow>
      parse_status pr homework = Inl (ValueError (UNEXPECTED_STATUS (py_str pr st))))
"
proof (intro conjI impI)
  assume "map_of homework ''status'' = Some (JStr s)" "map_of VERDICTS s = Some verdict"
    "map_of homework ''homework_name'' = Some name"
  then show "parse_status pr homework = Inr (STATUS_CHANGED (py_str pr name) verdict)"
    by (simp add: parse_status_def getitem_def unhashable_def)
next
  show "\<exists>p. STATUS_CHANGED (py_str pr name) verdict =
                p @ [CHR 0x22] @ py_str pr name @ [CHR 0x22] @ ''. '' @ verdict"
    by (rule STATUS_CHANGED_contains)
next
  show "(map_of VERDICTS s \<noteq> None) = (s \<in> {''approved'', ''rejected'', ''reviewing''})"
    by (rule VERDICTS_keys)
next
  assume st: "map_of homework ''status'' = Some st" and h: "\<not> unhashable st"
    and out: "st \<notin> {JStr ''approved'', JStr ''rejected'', JStr ''reviewing''}"
  have "(case st of JStr s \<Rightarrow> map_of VERDICTS s | _ \<Rightarrow> None) = None"
  proof (cases st)
    case (JStr s')
    with out have "s' \<notin> {''approved'', ''rejected'', ''reviewing''}" by simp
    then have "map_of VERDICTS s' = None" using VERDICTS_keys [of s'] by blast
    with JStr show ?thesis by simp
  qed simp_all
  with st h show "parse_status pr homework = Inl (ValueError (UNEXPECTED_STATUS (py_str pr st)))"
    by (simp add: parse_status_def getitem_def)
qed

theorem parse_status_translates_witness:
  "parse_status sample_db
     [(''id'', JInt 5), (''status'', JStr ''approved''), (''homework_name'', JStr ''hw1'')]
     = Inr (STATUS_CHANGED ''hw1'' VERDICT_approved)
   \<and> parse_status sample_db [(''status'', JStr ''unknown_code'')]
     = Inl (ValueError (UNEXPECTED_STATUS ''unknown_code''))"
  using parse_status_translates
      [where pr = sample_db
         and homework =
           "[(''id'', JInt 5), (''status'', JStr ''approved''), (''homework_name'', JStr ''hw1'')]"
         and s = "''approved''" and verdict = VERDICT_approved and name = "JStr ''hw1''"
         and st = JNull]
    parse_status_translates
      [where pr = sample_db and homework = "[(''status'', JStr ''unknown_code'')]"
         and s = "''x''" and verdict = "''y''" and name = JNull
         and st = "JStr ''unknown_code''"]
  by (simp add: py_str_def VERDICTS_def unhashable_def)

text \<open>
  The claim as it was stated fails at two records: a status that is a list is outside the
  three codes and raises \<^verbatim>\<open>TypeError\<close>, not \<^verbatim>\<open>ValueError\<close>; a record with a known status and
  no \<^verbatim>\<open>homework_name\<close> raises \<^verbatim>\<open>KeyError\<close> and returns no message.
\<close>

theorem parse_status_counterexample:
  "parse_status sample_db [(''status'', JList []), (''homework_name'', JStr ''hw1'')]
     = Inl (TypeError (''unhashable type: '' @ [CHR 0x27] @ ''list'' @ [CHR 0x27]))
   \<and> parse_status sample_db [(''status'', JStr ''approved'')] = Inl (KeyError ''homework_name'')"
  by (simp add: parse_status_def getitem_def unhashable_def unhashable_type_def quoted_def
      type_name_def VERDICTS_def)

section \<open>The notifier\<close>


lemma py_eq_dict_iff:
  "py_eq (JDict d) (JDict e) \<longleftrightarrow>
     set (map fst d) = set (map fst e)
     \<and> (\<forall>k \<in> set (map fst d).
           \<exists>v w. map_of d k = Some v \<and> map_of e k = Some w \<and> py_eq v w)"
proof -
  have "\<And>k. (case map_of d k of
                None \<Rightarrow> False
              | Some v \<Rightarrow> (case map_of e k of None \<Rightarrow> False | Some w \<Rightarrow> py_eq v w))
          \<longleftrightarrow> (\<exists>v w. map_of d k = Some v \<and> map_of e k = Some w \<and> py_eq v w)"
    by (simp split: option.splits)
  then show ?thesis
    by (simp add: list_all_iff)
qed

lemma py_eq_trans: "py_eq x y \<Longrightarrow> py_eq y z \<Longrightarrow> py_eq x z"
proof (induction x arbitrary: y z)
  case JNull
  then show ?case by simp
next
  case (JBool a)
  then show ?case by (cases y; cases z) (auto split: if_splits)
next
  case (JInt i)
  then show ?case by (cases y; cases z) (auto split: if_splits)
next
  case (JStr s)
  then show ?case by simp
next
  case (JList xs)
  from JList.prems(1) obtain ys where y: "y = JList ys" and xy: "list_all2 py_eq xs ys"
    by (cases y) simp_all
  from JList.prems(2) y obtain zs where z: "z = JList zs" and yz: "list_all2 py_eq ys zs"
    by (cases z) simp_all
  have "list_all2 py_eq xs zs"
    unfolding list_all2_conv_all_nth
  proof (intro conjI allI impI)
    show "length xs = length zs"
      using xy yz by (simp add: list_all2_lengthD)
  next
    fix n assume n: "n < length xs"
    then have "xs ! n \<in> set xs" by simp
    moreover have "py_eq (xs ! n) (ys ! n)"
      using xy n by (simp add: list_all2_nthD)
    moreover have "py_eq (ys ! n) (zs ! n)"
      using xy yz n by (simp add: list_all2_nthD2 list_all2_lengthD)
    ultimately show "py_eq (xs ! n) (zs ! n)"
      using JList.IH by blast
  qed
  with z show ?case by simp
next
  case (JDict d)
  from JDict.prems(1) obtain e where y: "y = JDict e"
    by (cases y) simp_all
  from JDict.prems(2) y obtain f where z: "z = JDict f"
    by (cases z) simp_all
  from JDict.prems(1) y have "py_eq (JDict d) (JDict e)" by simp
  then have keys_de: "set (map fst d) = set (map fst e)"
    and vals_de: "\<forall>k \<in> set (map fst d).
        \<exists>v w. map_of d k = Some v \<and> map_of e k = Some w \<and> py_eq v w"
    unfolding py_eq_dict_iff by blast+
  from JDict.prems(2) y z have "py_eq (JDict e) (JDict f)" by simp
  then have keys_ef: "set (map fst e) = set (map fst f)"
    and vals_ef: "\<forall>k \<in> set (map fst e).
        \<exists>w u. map_of e k = Some w \<and> map_of f k = Some u \<and> py_eq w u"
    unfolding py_eq_dict_iff by blast+
  have "\<forall>k \<in> set (map fst d).
      \<exists>v u. map_of d k = Some v \<and> map_of f k = Some u \<and> py_eq v u"
  proof
    fix k assume k: "k \<in> set (map fst d)"
    then obtain v w where v: "map_of d k = Some v" and w: "map_of e k = Some w"
      and vw: "py_eq v w"
      using vals_de by blast
    from k keys_de have "k \<in> set (map fst e)" by simp
    then obtain u where u: "map_of f k = Some u" and wu: "py_eq w u"
      using vals_ef w by fastforce
    from v have "(k, v) \<in> set d" by (rule map_of_SomeD)
    then have "v \<in> Basic_BNFs.snds (k, v)" "(k, v) \<in> set d" by simp_all
    then have "py_eq v u"
      using JDict.IH vw wu by blast
    with v u show "\<exists>v u. map_of d k = Some v \<and> map_of f k = Some u \<and> py_eq v u"
      by blast
  qed
  with keys_de keys_ef have "py_eq (JDict d) (JDict f)"
    unfolding py_eq_dict_iff by simp
  with z show ?case by simp
qed

lemma send_message_suppressed:
  "last_message st = Some message \<Longrightarrow> py_eq (last_message_hw_id st) (current_hw_id st) \<Longrightarrow>
   send_message cfg b message st = ([], st)"
  by (simp add: send_message_def)

lemma send_message_delivers:
  "\<not> (last_message st = Some message \<and> py_eq (last_message_hw_id st) (current_hw_id st)) \<Longrightarrow>
   send_message cfg (Sent, Sent) message st =
     (delivery cfg message,
      st\<lparr>last_message := Some message, last_message_hw_id := current_hw_id st\<rparr>)"
  by (simp add: send_message_def send_message_try_def delivery_def)

lemma send_message_attempts:
  "\<not> (last_message st = Some message \<and> py_eq (last_message_hw_id st) (current_hw_id st)) \<Longrightarrow>
   \<exists>evs. fst (send_message cfg b message st) = BotSend (MY_CHAT_ID cfg) ATTENTION (fst b) # evs"
  by (cases b) (simp add: send_message_def send_message_try_def split: send_result.splits)

lemma send_message_first_raises:
  "\<not> (last_message st = Some message \<and> py_eq (last_message_hw_id st) (current_hw_id st)) \<Longrightarrow>
   fst b = Raised err \<Longrightarrow>
   send_message cfg b message st =
     ([BotSend (MY_CHAT_ID cfg) ATTENTION (Raised err), Log ERROR (MESSAGE_SENDING_FAILED err)], st)"
  by (simp add: send_message_def send_message_try_def)



text \<open>
  Claim C6.  When the chat client raises during \<^verbatim>\<open>send_message\<close>, at the first send or at the
  second, the \<^verbatim>\<open>try\<close> block is left with that exception and the handler of \<^verbatim>\<open>send_message\<close>
  takes it: the state, \<^verbatim>\<open>last_message\<close> and \<^verbatim>\<open>last_message_hw_id\<close> included, is what it was before
  the call, one line at level error with \<^verbatim>\<open>MESSAGE_SENDING_FAILED\<close> closes the trace, and
  \<^verbatim>\<open>send_message\<close> returns to its caller.  The next attempt at the same message and id is
  therefore not suppressed: it starts a delivery again.
\<close>

theorem send_message_failure_is_local:
  assumes "\<not> (last_message st = Some message \<and> py_eq (last_message_hw_id st) (current_hw_id st))"
    and "fst b = Raised err \<or> (fst b = Sent \<and> snd b = Raised err)"
  shows "snd (send_message_try cfg b message st) = Inl err
    \<and> send_message cfg b message st =
        (fst (send_message_try cfg b message st) @ [Log ERROR (MESSAGE_SENDING_FAILED err)], st)
    \<and> fst (send_message_try cfg b message st) =
        (if fst b = Sent
         then [BotSend (MY_CHAT_ID cfg) ATTENTION Sent,
               BotSend (MY_CHAT_ID cfg) message (Raised err)]
         else [BotSend (MY_CHAT_ID cfg) ATTENTION (Raised err)])
    \<and> (\<exists>evs. fst (send_message cfg b' message (snd (send_message cfg b message st))) =
                BotSend (MY_CHAT_ID cfg) ATTENTION (fst b') # evs)
    \<and> fst (send_message cfg (Sent, Sent) message (snd (send_message cfg b message st))) =
        delivery cfg message"
proof -
  have try_block: "snd (send_message_try cfg b message st) = Inl err"
    and sends: "fst (send_message_try cfg b message st) =
        (if fst b = Sent
         then [BotSend (MY_CHAT_ID cfg) ATTENTION Sent,
               BotSend (MY_CHAT_ID cfg) message (Raised err)]
         else [BotSend (MY_CHAT_ID cfg) ATTENTION (Raised err)])"
    using assms(2) by (auto simp: send_message_try_def)
  have whole: "send_message cfg b message st =
        (fst (send_message_try cfg b message st) @ [Log ERROR (MESSAGE_SENDING_FAILED err)], st)"
    using assms try_block by (cases "send_message_try cfg b message st") (simp add: send_message_def)
  then have same: "snd (send_message cfg b message st) = st"
    by simp
  have again: "\<exists>evs. fst (send_message cfg b' message (snd (send_message cfg b message st))) =
                BotSend (MY_CHAT_ID cfg) ATTENTION (fst b') # evs"
    unfolding same using assms(1) by (rule send_message_attempts)
  have full: "fst (send_message cfg (Sent, Sent) message (snd (send_message cfg b message st))) =
        delivery cfg message"
    unfolding same using assms(1) by (simp add: send_message_delivers)
  from try_block whole sends again full show ?thesis
    by blast
qed

theorem send_message_failure_is_local_witness:
  "send_message sample_config (Sent, Raised ''Timed out'') ''msg''
       ((initial_state 1700000000)\<lparr>current_hw_id := JInt 5\<rparr>)
     = ([BotSend (MY_CHAT_ID sample_config) ATTENTION Sent,
         BotSend (MY_CHAT_ID sample_config) ''msg'' (Raised ''Timed out''),
         Log ERROR (MESSAGE_SENDING_FAILED ''Timed out'')],
        (initial_state 1700000000)\<lparr>current_hw_id := JInt 5\<rparr>)
   \<and> fst (send_message sample_config (Sent, Sent) ''msg''
       ((initial_state 1700000000)\<lparr>current_hw_id := JInt 5\<rparr>)) = delivery sample_config ''msg''"
proof -
  have gate: "\<not> (last_message ((initial_state 1700000000)\<lparr>current_hw_id := JInt 5\<rparr>) = Some ''msg''
      \<and> py_eq (last_message_hw_id ((initial_state 1700000000)\<lparr>current_hw_id := JInt 5\<rparr>))
              (current_hw_id ((initial_state 1700000000)\<lparr>current_hw_id := JInt 5\<rparr>)))"
    by (simp add: initial_state_def)
  have raises: "fst (Sent, Raised ''Timed out'') = Raised ''Timed out''
      \<or> (fst (Sent, Raised ''Timed out'') = Sent \<and> snd (Sent, Raised ''Timed out'') = Raised ''Timed out'')"
    by simp
  show ?thesis
    using send_message_failure_is_local [OF gate raises, of sample_config "(Sent, Sent)"]
    by clarsimp
qed

section \<open>The poll loop\<close>

text \<open>One iteration ends with the sleep, after the handler when the \<^verbatim>\<open>try\<close> block raised.\<close>

lemma cycle_ok:
  "main_try pr cfg rg b st = (evs, st', None) \<Longrightarrow> cycle pr cfg rg b st = (evs @ [Sleep RETRY_TIME], st')"
  by (simp add: cycle_def)

lemma cycle_raised:
  "main_try pr cfg rg b st = (evs, st', Some e) \<Longrightarrow>
   cycle pr cfg rg b st =
     (evs @ [Log ERROR (ERROR_FOUND (str_exn pr e))]
        @ fst (send_message cfg b (ERROR_FOUND (str_exn pr e)) st') @ [Sleep RETRY_TIME],
      snd (send_message cfg b (ERROR_FOUND (str_exn pr e)) st'))"
  by (simp add: cycle_def split: prod.splits)







text \<open>The \<^verbatim>\<open>try\<close> block of an iteration, path by path.\<close>

lemma main_try_api_fails:
  "get_api_answer pr cfg rg (timestamp st) = Inl e \<Longrightarrow> main_try pr cfg rg b st = ([], st, Some e)"
  by (simp add: main_try_def)

lemma main_try_response_fails:
  "get_api_answer pr cfg rg (timestamp st) = Inr (JDict response) \<Longrightarrow> check_response response = Inl e \<Longrightarrow>
   main_try pr cfg rg b st =
     ([], st\<lparr>timestamp := dict_get response ''current_date'' (timestamp st)\<rparr>, Some e)"
  by (simp add: main_try_def)

lemma main_try_empty:
  "get_api_answer pr cfg rg (timestamp st) = Inr (JDict response) \<Longrightarrow> check_response response = Inr [] \<Longrightarrow>
   main_try pr cfg rg b st =
     ([Log DEBUG STATUSES_NOT_CHANGED],
      st\<lparr>timestamp := dict_get response ''current_date'' (timestamp st)\<rparr>, None)"
  by (simp add: main_try_def)

lemma main_try_status_fails:
  "get_api_answer pr cfg rg (timestamp st) = Inr (JDict response) \<Longrightarrow>
   check_response response = Inr (JDict homework # rest) \<Longrightarrow>
   parse_status pr homework = Inl e \<Longrightarrow>
   main_try pr cfg rg b st =
     ([], st\<lparr>timestamp := dict_get response ''current_date'' (timestamp st),
              current_hw_id := dict_get homework ''id'' JNull\<rparr>, Some e)"
  by (simp add: main_try_def)

lemma main_try_notifies:
  "get_api_answer pr cfg rg (timestamp st) = Inr (JDict response) \<Longrightarrow>
   check_response response = Inr (JDict homework # rest) \<Longrightarrow>
   parse_status pr homework = Inr message \<Longrightarrow>
   main_try pr cfg rg b st =
     (fst (send_message cfg b message
             (st\<lparr>timestamp := dict_get response ''current_date'' (timestamp st),
                  current_hw_id := dict_get homework ''id'' JNull\<rparr>)),
      snd (send_message cfg b message
             (st\<lparr>timestamp := dict_get response ''current_date'' (timestamp st),
                  current_hw_id := dict_get homework ''id'' JNull\<rparr>)),
      None)"
  by (simp add: main_try_def split: prod.splits)

lemma timestamp_send_message: "timestamp (snd (send_message cfg b message st)) = timestamp st"
  by (cases b)
    (simp add: send_message_def send_message_try_def split: send_result.splits)

lemma main_try_body_fails:
  "get_api_answer pr cfg rg (timestamp st) = Inr v \<Longrightarrow> \<forall>response. v \<noteq> JDict response \<Longrightarrow>
   main_try pr cfg rg b st = ([], st, Some (no_attribute v ''get''))"
  by (cases v) (simp_all add: main_try_def)


lemma timestamp_main_try:
  "timestamp (fst (snd (main_try pr cfg rg b st))) =
     (case get_api_answer pr cfg rg (timestamp st) of
        Inr (JDict body) \<Rightarrow> dict_get body ''current_date'' (timestamp st)
      | _ \<Rightarrow> timestamp st)"
proof (cases "get_api_answer pr cfg rg (timestamp st)")
  case (Inl e)
  then show ?thesis by (simp add: main_try_api_fails)
next
  case (Inr v)
  show ?thesis
  proof (cases "\<exists>response. v = JDict response")
    case False
    then have "main_try pr cfg rg b st = ([], st, Some (no_attribute v ''get''))"
      using Inr by (simp add: main_try_body_fails)
    with Inr False show ?thesis
      by (cases v) simp_all
  next
    case True
    then obtain response where v: "v = JDict response" by blast
    note api = Inr [unfolded v]
    show ?thesis
    proof (cases "check_response response")
      case (Inl e)
      with api show ?thesis by (simp add: main_try_response_fails)
    next
      case hs: (Inr homeworks)
      show ?thesis
      proof (cases homeworks)
        case Nil
        with api hs show ?thesis by (simp add: main_try_empty)
      next
        case (Cons hw rest)
        show ?thesis
        proof (cases "\<exists>homework. hw = JDict homework")
          case False
          with api hs Cons show ?thesis
            by (cases hw) (simp_all add: main_try_def)
        next
          case True
          then obtain homework where hw: "hw = JDict homework" by blast
          show ?thesis
          proof (cases "parse_status pr homework")
            case (Inl e)
            with api hs Cons hw show ?thesis by (simp add: main_try_status_fails)
          next
            case msg: (Inr message)
            with api hs Cons hw show ?thesis
              by (simp add: main_try_notifies timestamp_send_message)
          qed
        qed
      qed
    qed
  qed
qed

lemma timestamp_cycle:
  "timestamp (snd (cycle pr cfg rg b st)) =
     (case get_api_answer pr cfg rg (timestamp st) of
        Inr (JDict body) \<Rightarrow> dict_get body ''current_date'' (timestamp st)
      | _ \<Rightarrow> timestamp st)"
proof (cases "main_try pr cfg rg b st")
  case (fields evs st' r)
  then have st': "timestamp st' =
     (case get_api_answer pr cfg rg (timestamp st) of
        Inr (JDict body) \<Rightarrow> dict_get body ''current_date'' (timestamp st)
      | _ \<Rightarrow> timestamp st)"
    using timestamp_main_try [of pr cfg rg b st] by simp
  from fields show ?thesis
    by (cases r) (simp_all add: cycle_ok cycle_raised timestamp_send_message st')
qed

lemma main_try_raised_keeps:
  assumes "main_try pr cfg rg b st = (evs, st', Some e)"
  shows "evs = [] \<and> last_message st' = last_message st
    \<and> last_message_hw_id st' = last_message_hw_id st"
  using assms
  by (auto simp: main_try_def Let_def split: sum.splits list.splits json.splits prod.splits)

text \<open>The API call at the sample transports.\<close>

lemma get_api_answer_outage:
  "get_api_answer sample_db sample_config outage (JInt 1700000000) = Inl outage_error"
  by (simp add: get_api_answer_cases outage_def outage_error_def)

lemma main_try_outage:
  "timestamp st = JInt 1700000000 \<Longrightarrow>
   main_try sample_db sample_config outage b st = ([], st, Some outage_error)"
  by (simp add: main_try_api_fails get_api_answer_outage)

lemma get_api_answer_list_body:
  "get_api_answer pr cfg list_body ts = Inr (JList [])"
  by (simp add: get_api_answer_cases list_body_def py_contains_def)











subsection \<open>The cursor\<close>

lemma cursor_le_trans: "cursor_le a b \<Longrightarrow> cursor_le b c \<Longrightarrow> cursor_le a c"
  by (cases a; cases b; cases c) (simp_all add: cursor_le_def)

lemma cursor_le_refl: "cursor_le (JInt t) (JInt t)"
  by (simp add: cursor_le_def)

lemma cursor_le_int: "cursor_le a b \<Longrightarrow> \<exists>t. b = JInt t"
  by (cases a; cases b) (simp_all add: cursor_le_def)

lemma timestamp_step:
  "timestamp (snd (step pr cfg world i s)) =
     timestamp (snd (cycle pr cfg (fst (world i)) (snd (world i)) (snd s)))"
  by (cases "cycle pr cfg (fst (world i)) (snd (world i)) (snd s)") (simp add: step_def)

lemma cycle_advances:
  assumes "timestamp st = JInt t" and "date_advances pr cfg rg st"
  shows "cursor_le (timestamp st) (timestamp (snd (cycle pr cfg rg b st)))"
proof (cases "get_api_answer pr cfg rg (timestamp st)")
  case (Inl e)
  with assms(1) show ?thesis by (simp add: timestamp_cycle cursor_le_refl)
next
  case (Inr v)
  show ?thesis
  proof (cases "\<exists>body. v = JDict body")
    case False
    with Inr assms(1) show ?thesis
      by (cases v) (simp_all add: timestamp_cycle cursor_le_refl)
  next
    case True
    then obtain body where v: "v = JDict body" by blast
    note api = Inr [unfolded v]
    show ?thesis
    proof (cases "map_of body ''current_date''")
      case None
      with api assms(1) show ?thesis
        by (simp add: timestamp_cycle dict_get_def cursor_le_refl)
    next
      case (Some d)
      with api assms(2) have "cursor_le (timestamp st) d"
        by (simp add: date_advances_def)
      with api Some show ?thesis
        by (simp add: timestamp_cycle dict_get_def)
    qed
  qed
qed

lemma run_cycles_advance:
  "timestamp (snd s) = JInt t \<Longrightarrow> dates_advance pr cfg world i n s \<Longrightarrow>
   cursor_le (timestamp (snd s)) (timestamp (snd (run_cycles pr cfg world i n s)))"
proof (induction n arbitrary: i s t)
  case 0
  then show ?case by (simp add: cursor_le_refl)
next
  case (Suc n)
  from Suc.prems have adv: "date_advances pr cfg (fst (world i)) (snd s)"
    and rest: "dates_advance pr cfg world (Suc i) n (step pr cfg world i s)"
    by simp_all
  have one: "cursor_le (timestamp (snd s)) (timestamp (snd (step pr cfg world i s)))"
    using cycle_advances [OF Suc.prems(1) adv] by (simp add: timestamp_step)
  then obtain t' where "timestamp (snd (step pr cfg world i s)) = JInt t'"
    using cursor_le_int by blast
  from Suc.IH [OF this rest]
  have "cursor_le (timestamp (snd (step pr cfg world i s)))
          (timestamp (snd (run_cycles pr cfg world (Suc i) n (step pr cfg world i s))))" .
  with one show ?case
    by (simp add: cursor_le_trans)
qed

lemma get_api_answer_quiet:
  "get_api_answer pr cfg quiet ts =
     Inr (JDict [(''homeworks'', JList []), (''current_date'', JInt 1700000600)])"
  by (simp add: get_api_answer_cases quiet_def py_contains_def dict_in_def)

lemma get_api_answer_stale:
  "get_api_answer pr cfg stale ts =
     Inr (JDict [(''homeworks'', JList []), (''current_date'', JInt 1600000000)])"
  by (simp add: get_api_answer_cases stale_def py_contains_def dict_in_def)

text \<open>
  Claim C8, as the code has it.  In every iteration whose API call succeeds the cursor
  becomes the \<^verbatim>\<open>current_date\<close> of the body when that key is present and stays as it is
  otherwise, also for a body that is no dict; it also stays when the API call fails.  The
  code takes the reported value without comparing it with the cursor, so the cursor is
  monotone only as far as the service is: over a run in which no response reports a
  \<^verbatim>\<open>current_date\<close> below the cursor it was asked with, the cursor never decreases.
\<close>

theorem cursor_follows_reported_date:
  "(get_api_answer pr cfg rg (timestamp st) = Inr (JDict body) \<longrightarrow>
        map_of body ''current_date'' = Some d \<longrightarrow>
      timestamp (snd (cycle pr cfg rg b st)) = d)
   \<and> (get_api_answer pr cfg rg (timestamp st) = Inr (JDict body) \<longrightarrow>
        map_of body ''current_date'' = None \<longrightarrow>
      timestamp (snd (cycle pr cfg rg b st)) = timestamp st)
   \<and> (get_api_answer pr cfg rg (timestamp st) = Inr v \<longrightarrow> (\<forall>body. v \<noteq> JDict body) \<longrightarrow>
      timestamp (snd (cycle pr cfg rg b st)) = timestamp st)
   \<and> (get_api_answer pr cfg rg (timestamp st) = Inl e \<longrightarrow>
      timestamp (snd (cycle pr cfg rg b st)) = timestamp st)
   \<and> (timestamp (snd s) = JInt t \<longrightarrow> dates_advance pr cfg world i n s \<longrightarrow>
      cursor_le (timestamp (snd s)) (timestamp (snd (run_cycles pr cfg world i n s))))"
proof -
  have "timestamp (snd s) = JInt t \<longrightarrow> dates_advance pr cfg world i n s \<longrightarrow>
      cursor_le (timestamp (snd s)) (timestamp (snd (run_cycles pr cfg world i n s)))"
    using run_cycles_advance by blast
  moreover have "get_api_answer pr cfg rg (timestamp st) = Inr v \<longrightarrow>
      (\<forall>body. v \<noteq> JDict body) \<longrightarrow> timestamp (snd (cycle pr cfg rg b st)) = timestamp st"
    by (cases v) (simp_all add: timestamp_cycle)
  ultimately show ?thesis
    by (simp add: timestamp_cycle dict_get_def)
qed

theorem cursor_follows_reported_date_witness:
  "timestamp (snd (cycle sample_db sample_config quiet (Sent, Sent)
                     (initial_state 1700000000))) = JInt 1700000600
   \<and> timestamp (snd (cycle sample_db sample_config outage (Sent, Sent)
                       (initial_state 1700000000))) = JInt 1700000000
   \<and> timestamp (snd (cycle sample_db sample_config list_body (Sent, Sent)
                       (initial_state 1700000000))) = JInt 1700000000
   \<and> cursor_le (JInt 1700000000)
       (timestamp (snd (run_cycles sample_db sample_config quiet_world 0 (Suc (Suc 0))
                          ([], initial_state 1700000000))))"
proof -
  let ?st = "initial_state 1700000000"
  let ?body = "[(''homeworks'', JList []), (''current_date'', JInt 1700000600)]"
  let ?e = "ConnectionError
              (NO_RESPONSE ''connection refused'' ENDPOINT
                 (py_str sample_db (JDict (HEADERS sample_config)))
                 (py_str sample_db (JDict [(''from_date'', JInt 1700000000)])))"
  note one = cursor_follows_reported_date
    [where pr = sample_db and cfg = sample_config and rg = quiet and st = ?st and body = ?body
       and d = "JInt 1700000600" and b = "(Sent, Sent)" and s = "([], ?st)" and t = 1700000000
       and world = quiet_world and i = 0 and n = "Suc (Suc 0)"]
  note down = cursor_follows_reported_date
    [where pr = sample_db and cfg = sample_config and rg = outage and st = ?st and e = ?e
       and b = "(Sent, Sent)"]
  have first: "timestamp (snd (cycle sample_db sample_config quiet (Sent, Sent) ?st)) = JInt 1700000600"
    using one by (simp add: get_api_answer_quiet)
  have "get_api_answer sample_db sample_config outage (timestamp ?st) = Inl ?e"
    by (simp add: get_api_answer_cases outage_def initial_state_def)
  with down have second:
    "timestamp (snd (cycle sample_db sample_config outage (Sent, Sent) ?st)) = JInt 1700000000"
    by (simp add: initial_state_def)
  have "date_advances sample_db sample_config quiet ?st"
    by (simp add: date_advances_def get_api_answer_quiet cursor_le_def initial_state_def)
  moreover have "date_advances sample_db sample_config quiet
      (snd (step sample_db sample_config quiet_world 0 ([], ?st)))"
    using first
    by (simp add: date_advances_def get_api_answer_quiet cursor_le_def timestamp_step
        quiet_world_def)
  ultimately have "dates_advance sample_db sample_config quiet_world 0 (Suc (Suc 0)) ([], ?st)"
    by (simp add: quiet_world_def)
  with one have "cursor_le (timestamp ?st)
       (timestamp (snd (run_cycles sample_db sample_config quiet_world 0 (Suc (Suc 0)) ([], ?st))))"
    by (simp add: initial_state_def)
  then have third: "cursor_le (JInt 1700000000)
       (timestamp (snd (run_cycles sample_db sample_config quiet_world 0 (Suc (Suc 0)) ([], ?st))))"
    by (simp add: initial_state_def)
  note other = cursor_follows_reported_date
    [where pr = sample_db and cfg = sample_config and rg = list_body and st = ?st
       and v = "JList []" and b = "(Sent, Sent)"]
  have fourth: "timestamp (snd (cycle sample_db sample_config list_body (Sent, Sent) ?st)) =
      JInt 1700000000"
    using other by (simp add: get_api_answer_list_body initial_state_def)
  from first second third fourth show ?thesis by simp
qed

text \<open>
  The claim as it was stated, that the cursor never decreases, fails when the service
  reports a date before the cursor: the cursor goes back to it.
\<close>

theorem cursor_decreases_counterexample:
  "timestamp (initial_state 1700000000) = JInt 1700000000
   \<and> timestamp (snd (cycle sample_db sample_config stale (Sent, Sent)
                       (initial_state 1700000000))) = JInt 1600000000
   \<and> \<not> cursor_le (JInt 1700000000) (JInt 1600000000)"
  by (simp add: timestamp_cycle get_api_answer_stale dict_get_def initial_state_def cursor_le_def)

subsection \<open>Repeated failures\<close>

lemma ERROR_FOUND_not_ATTENTION: "ERROR_FOUND x \<noteq> ATTENTION"
  by (simp add: ERROR_FOUND_def ATTENTION_def)

lemma copies_send_message:
  "message \<noteq> ATTENTION \<Longrightarrow>
   copies message (fst (send_message cfg b message st)) =
     (if \<not> (last_message st = Some message \<and> py_eq (last_message_hw_id st) (current_hw_id st))
         \<and> b = (Sent, Sent)
      then 1 else 0)"
  by (cases b)
    (auto simp: send_message_def send_message_try_def copies_def split: send_result.splits)

lemma copies_append: "copies m (xs @ ys) = copies m xs + copies m ys"
  by (simp add: copies_def)

lemma copies_cycle_raised:
  assumes "main_try pr cfg rg b st = (evs, st', Some e)"
  shows "copies (ERROR_FOUND (str_exn pr e)) (fst (cycle pr cfg rg b st)) =
           copies (ERROR_FOUND (str_exn pr e)) (fst (send_message cfg b (ERROR_FOUND (str_exn pr e)) st'))"
proof -
  from assms have "evs = []" using main_try_raised_keeps by blast
  with assms show ?thesis
    by (simp add: cycle_raised copies_def)
qed

text \<open>
  Claim C10, as the code has it.  The gate of \<^verbatim>\<open>send_message\<close> also covers the failure
  notifications of \<^verbatim>\<open>main\<close>.  When two consecutive iterations fail with the same failure
  text while \<^verbatim>\<open>current_hw_id\<close> is unchanged, the chat accepts that text at most once over the
  two iterations.  When the \<^verbatim>\<open>send_message\<close> call of the first iteration did not fail (the
  chat accepted both sends, or the call was itself suppressed), the call of the second
  iteration returns without any send, and the second iteration only logs the failure and
  sleeps.
\<close>

theorem repeated_failure_notified_once:
  assumes first: "main_try pr cfg rg1 b1 st0 = (evs1, st1, Some e1)"
    and second: "main_try pr cfg rg2 b2 (snd (cycle pr cfg rg1 b1 st0)) = (evs2, st2, Some e2)"
    and same_text: "ERROR_FOUND (str_exn pr e2) = ERROR_FOUND (str_exn pr e1)"
    and same_id: "py_eq (current_hw_id st1) (current_hw_id st2)"
  shows "copies (ERROR_FOUND (str_exn pr e1))
            (fst (cycle pr cfg rg1 b1 st0) @ fst (cycle pr cfg rg2 b2 (snd (cycle pr cfg rg1 b1 st0)))) \<le> 1
    \<and> (b1 = (Sent, Sent)
         \<or> (last_message st1 = Some (ERROR_FOUND (str_exn pr e1))
             \<and> py_eq (last_message_hw_id st1) (current_hw_id st1)) \<longrightarrow>
        send_message cfg b2 (ERROR_FOUND (str_exn pr e2)) st2 = ([], st2)
        \<and> cycle pr cfg rg2 b2 (snd (cycle pr cfg rg1 b1 st0)) =
            ([Log ERROR (ERROR_FOUND (str_exn pr e2)), Sleep 600], st2))"
proof -
  let ?text = "ERROR_FOUND (str_exn pr e1)"
  let ?mid = "snd (cycle pr cfg rg1 b1 st0)"
  have mid: "?mid = snd (send_message cfg b1 ?text st1)"
    using first by (simp add: cycle_raised)
  have evs2: "evs2 = []" and lm2: "last_message st2 = last_message ?mid"
    and id2: "last_message_hw_id st2 = last_message_hw_id ?mid"
    using main_try_raised_keeps [OF second] by simp_all
  have not_attention: "?text \<noteq> ATTENTION"
    by (rule ERROR_FOUND_not_ATTENTION)
  have c1: "copies ?text (fst (cycle pr cfg rg1 b1 st0)) =
      copies ?text (fst (send_message cfg b1 ?text st1))"
    using first by (rule copies_cycle_raised)
  have c2: "copies ?text (fst (cycle pr cfg rg2 b2 ?mid)) =
      copies ?text (fst (send_message cfg b2 ?text st2))"
    using copies_cycle_raised [OF second] same_text by simp
  have cycle2: "cycle pr cfg rg2 b2 ?mid =
      ([Log ERROR ?text] @ fst (send_message cfg b2 ?text st2) @ [Sleep 600],
       snd (send_message cfg b2 ?text st2))"
    using cycle_raised [OF second] evs2 same_text by (simp add: RETRY_TIME_def)
  let ?closed1 = "last_message st1 = Some ?text
      \<and> py_eq (last_message_hw_id st1) (current_hw_id st1)"
  have closed2_if: "b1 = (Sent, Sent) \<or> ?closed1 \<Longrightarrow>
      last_message st2 = Some ?text \<and> py_eq (last_message_hw_id st2) (current_hw_id st2)"
  proof -
    assume h: "b1 = (Sent, Sent) \<or> ?closed1"
    show ?thesis
    proof (cases ?closed1)
      case True
      then have "?mid = st1"
        using mid by (simp add: send_message_suppressed)
      with True lm2 id2 same_id show ?thesis
        by (auto intro: py_eq_trans)
    next
      case False
      with h have "b1 = (Sent, Sent)" by blast
      with False have "?mid =
          st1\<lparr>last_message := Some ?text, last_message_hw_id := current_hw_id st1\<rparr>"
        using mid by (simp add: send_message_delivers)
      with lm2 id2 same_id show ?thesis by simp
    qed
  qed
  have part2: "b1 = (Sent, Sent) \<or> ?closed1 \<longrightarrow>
        send_message cfg b2 (ERROR_FOUND (str_exn pr e2)) st2 = ([], st2)
        \<and> cycle pr cfg rg2 b2 ?mid = ([Log ERROR (ERROR_FOUND (str_exn pr e2)), Sleep 600], st2)"
  proof
    assume "b1 = (Sent, Sent) \<or> ?closed1"
    then have "last_message st2 = Some ?text"
      "py_eq (last_message_hw_id st2) (current_hw_id st2)"
      using closed2_if by blast+
    then have "send_message cfg b2 ?text st2 = ([], st2)"
      by (rule send_message_suppressed)
    with cycle2 same_text show "send_message cfg b2 (ERROR_FOUND (str_exn pr e2)) st2 = ([], st2)
        \<and> cycle pr cfg rg2 b2 ?mid = ([Log ERROR (ERROR_FOUND (str_exn pr e2)), Sleep 600], st2)"
      by simp
  qed
  have part1: "copies ?text (fst (cycle pr cfg rg1 b1 st0) @ fst (cycle pr cfg rg2 b2 ?mid)) \<le> 1"
  proof (cases "\<not> ?closed1 \<and> b1 = (Sent, Sent)")
    case True
    then have "last_message st2 = Some ?text \<and> py_eq (last_message_hw_id st2) (current_hw_id st2)"
      using closed2_if by blast
    then have "copies ?text (fst (send_message cfg b2 ?text st2)) = 0"
      by (simp add: copies_send_message [OF not_attention])
    moreover have "copies ?text (fst (send_message cfg b1 ?text st1)) = 1"
      using True by (simp add: copies_send_message [OF not_attention])
    ultimately show ?thesis
      by (simp add: copies_append c1 c2)
  next
    case False
    then have "copies ?text (fst (send_message cfg b1 ?text st1)) = 0"
      by (simp add: copies_send_message [OF not_attention])
    moreover have "copies ?text (fst (send_message cfg b2 ?text st2)) \<le> 1"
      by (simp add: copies_send_message [OF not_attention])
    ultimately show ?thesis
      by (simp add: copies_append c1 c2)
  qed
  from part1 part2 show ?thesis by blast
qed

theorem repeated_failure_notified_once_witness:
  "cycle sample_db sample_config outage (Sent, Sent)
     (snd (cycle sample_db sample_config outage (Sent, Sent) (initial_state 1700000000))) =
     ([Log ERROR (ERROR_FOUND (str_exn sample_db outage_error)), Sleep 600],
      (initial_state 1700000000)\<lparr>last_message := Some (ERROR_FOUND (str_exn sample_db outage_error))\<rparr>)
   \<and> copies (ERROR_FOUND (str_exn sample_db outage_error))
        (fst (cycle sample_db sample_config outage (Sent, Sent) (initial_state 1700000000))
         @ fst (cycle sample_db sample_config outage (Sent, Sent)
                  (snd (cycle sample_db sample_config outage (Sent, Sent) (initial_state 1700000000)))))
       \<le> 1"
proof -
  let ?st0 = "initial_state 1700000000"
  let ?text = "ERROR_FOUND (str_exn sample_db outage_error)"
  let ?mid = "?st0\<lparr>last_message := Some ?text\<rparr>"
  have first: "main_try sample_db sample_config outage (Sent, Sent) ?st0 = ([], ?st0, Some outage_error)"
    by (rule main_try_outage) (simp add: initial_state_def)
  have "send_message sample_config (Sent, Sent) ?text ?st0 =
      (delivery sample_config ?text,
       ?st0\<lparr>last_message := Some ?text, last_message_hw_id := current_hw_id ?st0\<rparr>)"
    by (rule send_message_delivers) (simp add: initial_state_def)
  then have mid: "snd (cycle sample_db sample_config outage (Sent, Sent) ?st0) = ?mid"
    using first by (simp add: cycle_raised initial_state_def)
  have "main_try sample_db sample_config outage (Sent, Sent) ?mid = ([], ?mid, Some outage_error)"
    by (rule main_try_outage) (simp add: initial_state_def)
  then have second: "main_try sample_db sample_config outage (Sent, Sent)
      (snd (cycle sample_db sample_config outage (Sent, Sent) ?st0)) = ([], ?mid, Some outage_error)"
    by (simp only: mid)
  have same_id: "py_eq (current_hw_id ?st0) (current_hw_id ?mid)"
    by (simp add: initial_state_def)
  note once = repeated_failure_notified_once [OF first second refl same_id]
  from once have rest: "cycle sample_db sample_config outage (Sent, Sent)
       (snd (cycle sample_db sample_config outage (Sent, Sent) ?st0)) =
     ([Log ERROR ?text, Sleep 600], ?mid)"
    by simp
  from once have count: "copies ?text
        (fst (cycle sample_db sample_config outage (Sent, Sent) ?st0)
         @ fst (cycle sample_db sample_config outage (Sent, Sent)
                  (snd (cycle sample_db sample_config outage (Sent, Sent) ?st0)))) \<le> 1"
    by (rule conjunct1)
  from rest count show ?thesis
    by (rule conjI)
qed

text \<open>
  The claim as it was stated, that the second iteration makes no delivery, fails when the
  \<^verbatim>\<open>send_message\<close> call of the first iteration failed: with the network down in the first
  iteration and the chat back in the second, both iterations fail with the same text at the
  same homework id, the state is what it was, and the second iteration delivers the text.
\<close>

theorem repeated_failure_counterexample:
  "main_try sample_db sample_config outage (Raised ''offline'', Sent) (initial_state 1700000000) =
     ([], initial_state 1700000000, Some outage_error)
   \<and> snd (cycle sample_db sample_config outage (Raised ''offline'', Sent) (initial_state 1700000000)) =
     initial_state 1700000000
   \<and> main_try sample_db sample_config outage (Sent, Sent)
       (snd (cycle sample_db sample_config outage (Raised ''offline'', Sent) (initial_state 1700000000))) =
     ([], initial_state 1700000000, Some outage_error)
   \<and> fst (cycle sample_db sample_config outage (Sent, Sent)
       (snd (cycle sample_db sample_config outage (Raised ''offline'', Sent) (initial_state 1700000000)))) =
     [Log ERROR (ERROR_FOUND (str_exn sample_db outage_error)),
      BotSend (MY_CHAT_ID sample_config) ATTENTION Sent,
      BotSend (MY_CHAT_ID sample_config) (ERROR_FOUND (str_exn sample_db outage_error)) Sent,
      Log INFO (MESSAGE_SENT (ERROR_FOUND (str_exn sample_db outage_error))),
      Sleep 600]"
proof -
  let ?st0 = "initial_state 1700000000"
  let ?text = "ERROR_FOUND (str_exn sample_db outage_error)"
  have try_block: "\<And>b. main_try sample_db sample_config outage b ?st0 = ([], ?st0, Some outage_error)"
    by (rule main_try_outage) (simp add: initial_state_def)
  have "send_message sample_config (Raised ''offline'', Sent) ?text ?st0 =
      ([BotSend (MY_CHAT_ID sample_config) ATTENTION (Raised ''offline''),
        Log ERROR (MESSAGE_SENDING_FAILED ''offline'')], ?st0)"
    by (rule send_message_first_raises) (simp_all add: initial_state_def)
  then have mid: "snd (cycle sample_db sample_config outage (Raised ''offline'', Sent) ?st0) = ?st0"
    using try_block by (simp add: cycle_raised)
  have "send_message sample_config (Sent, Sent) ?text ?st0 =
      (delivery sample_config ?text,
       ?st0\<lparr>last_message := Some ?text, last_message_hw_id := current_hw_id ?st0\<rparr>)"
    by (rule send_message_delivers) (simp add: initial_state_def)
  then have "fst (cycle sample_db sample_config outage (Sent, Sent) ?st0) =
      [Log ERROR ?text] @ delivery sample_config ?text @ [Sleep 600]"
    using try_block by (simp add: cycle_raised RETRY_TIME_def)
  with try_block mid show ?thesis
    by (simp add: delivery_def)
qed

end
